theory Spec2Isabelle
  imports Complex_Main "HOL-Library.Multiset"
begin

section \<open>The raster-acquisition pipeline of \<open>utilities/GEE_utilities.py\<close>\<close>

text \<open>
  The development embeds \<open>merge_rasters\<close>, \<open>download_file\<close> (from
  \<open>utilities/download_utilities.py\<close>) and \<open>download_gee_data_single_collection\<close> with its
  nested functions \<open>process_region\<close>, \<open>get_bbox_from_polygon\<close>, \<open>download_for_bbox\<close> and
  \<open>process_image\<close>.

  Python exceptions are values of type \<open>exn\<close>; a computation that can raise returns
  \<open>exn + 'a\<close> (\<open>Inl\<close> is the raised exception) together with the world it leaves behind.
  The world holds the file system, the open raster handles, the log and the trace of calls
  that left the process. The libraries the code calls (Earth Engine, requests, rasterio,
  os) are not part of the repository: each call into them is one step that the environment
  may let fail, decided by the list \<open>faults\<close> of the world. Coordinates and the delay
  \<open>0.32 * attempt\<close> are real numbers; the rounding of floating point is not modelled.
\<close>

subsection \<open>Strings: \<open>str\<close>, format specifications, \<open>split\<close>, \<open>os.path.join\<close>\<close>

definition digit :: "nat \<Rightarrow> char" where
  "digit d = ''0123456789'' ! d"

text \<open>Python's \<open>str\<close> on an \<open>int\<close>: decimal digits, a leading minus sign for negatives.\<close>

function str_nat :: "nat \<Rightarrow> string" where
  "str_nat n = (if n < 10 then [digit n] else str_nat (n div 10) @ [digit (n mod 10)])"
  by pat_completeness auto
termination
  by (relation "measure id") auto

declare str_nat.simps [simp del]

definition str_int :: "int \<Rightarrow> string" where
  "str_int i = (if i < 0 then ''-'' @ str_nat (nat (- i)) else str_nat (nat i))"

text \<open>The format specification \<open>:02d\<close>, used on the month numbers 1 to 12 only.\<close>

definition fmt_02d :: "nat \<Rightarrow> string" where
  "fmt_02d n = (if n < 10 then ''0'' @ str_nat n else str_nat n)"

text \<open>\<open>s.split(c)\<close>: the pieces of \<open>s\<close> between the occurrences of \<open>c\<close>; never empty.\<close>

fun split_on :: "char \<Rightarrow> string \<Rightarrow> string list" where
  "split_on c [] = [[]]"
| "split_on c (x # xs) =
     (if x = c then [] # split_on c xs
      else (case split_on c xs of [] \<Rightarrow> [[x]] | s # ss \<Rightarrow> (x # s) # ss))"

text \<open>\<open>collection.split('/')[-1]\<close>\<close>

definition collection_leaf :: "string \<Rightarrow> string" where
  "collection_leaf collection = last (split_on CHR ''/'' collection)"

text \<open>\<open>os.path.join(a, b)\<close> of \<open>posixpath\<close>: an absolute \<open>b\<close> replaces \<open>a\<close>.\<close>

definition path_join :: "string \<Rightarrow> string \<Rightarrow> string" where
  "path_join a b =
     (if b \<noteq> [] \<and> hd b = CHR ''/'' then b
      else if a = [] \<or> last a = CHR ''/'' then a @ b
      else a @ ''/'' @ b)"

subsection \<open>The calendar\<close>

text \<open>\<open>calendar.isleap\<close> and the second component of \<open>calendar.monthrange\<close>.\<close>

definition isleap :: "int \<Rightarrow> bool" where
  "isleap year = (year mod 4 = 0 \<and> (year mod 100 \<noteq> 0 \<or> year mod 400 = 0))"

definition mdays :: "nat list" where
  "mdays = [0, 31, 28, 31, 30, 31, 30, 31, 31, 30, 31, 30, 31]"

definition monthrange_days :: "int \<Rightarrow> nat \<Rightarrow> nat" where
  "monthrange_days year month = mdays ! month + (if month = 2 \<and> isleap year then 1 else 0)"

subsection \<open>Exceptions, Earth Engine expressions, the world\<close>

text \<open>
  The exceptions that occur. All of them are subclasses of Python's \<open>Exception\<close>, so an
  \<open>except Exception\<close> clause catches each.
\<close>

datatype exn =
    ValueError string
  | NameError string
  | IndexError
  | EEException
  | RequestException
  | HTTPError
  | ChunkedEncodingError
  | OSError
  | FileNotFoundError
  | RasterioIOError

text \<open>
  Earth Engine objects are expressions built on the client: \<open>ee.ImageCollection(id)\<close>,
  \<open>.select\<close>, \<open>.filterDate\<close>, \<open>.mosaic\<close>, \<open>.reproject\<close> and \<open>ee.ImageCollection(list)\<close>
  only extend the expression. The service is reached by \<open>getDownloadURL\<close>.
\<close>

datatype ee_collection =
    ImageCollection string
  | Select ee_collection string
  | FilterDate ee_collection string string
  | FromImages "ee_image list"
and ee_image =
    Mosaic ee_collection
  | Reproject ee_image string int

type_synonym bounds = "real \<times> real \<times> real \<times> real"

text \<open>
  A shapely geometry, reduced to what the code reads of it: \<open>geom_type\<close>, \<open>bounds\<close> and,
  for a multi-polygon, the \<open>bounds\<close> of each member of \<open>geoms\<close>. Every geometry whose
  \<open>geom_type\<close> is not \<open>"MultiPolygon"\<close> takes the branch of \<open>Polygon\<close>.
\<close>

datatype geometry = Polygon bounds | MultiPolygon "bounds list"

record dl_params =
  p_scale :: int
  p_region :: "(real \<times> real) list"
  p_format :: string
  p_crs :: string

datatype download_url = DownloadURL ee_image dl_params

text \<open>The state of a file: being written (created, content incomplete) or written.\<close>

datatype fstate = Partial | Complete

text \<open>Calls into the libraries, in the order they are made.\<close>

datatype event =
    EEBuild
  | GetDownloadURL ee_image dl_params
  | HttpGet download_url
  | RaiseForStatus
  | OpenWrite string
  | IterContent string
  | Sleep real
  | MakeDirs string
  | Remove string
  | RasterOpen string
  | RasterMerge "string list"
  | RasterCreate string
  | RasterWrite string

text \<open>The calls that go to the network: the download reference and the HTTP request.\<close>

fun is_network :: "event \<Rightarrow> bool" where
  "is_network (GetDownloadURL _ _) = True"
| "is_network (HttpGet _) = True"
| "is_network _ = False"

text \<open>One constructor for each logging statement, with the values it interpolates.\<close>

datatype level = INFO | WARNING | ERROR

datatype log_record =
    MergedRasterSaved string
  | ErrorDuringMerging exn
  | FileAlreadyExists string
  | DownloadedFile string
  | ErrorDownloading string nat nat exn real
  | FailedToDownload string nat
  | NoValidDownloads string string
  | RemovedTemporaryFile string
  | CouldNotRemove string exn
  | YearRequired string string
  | UnexpectedError string "int option" exn
  | ErrorInThread exn
  | ProcessingComplete

fun level_of :: "log_record \<Rightarrow> level" where
  "level_of (MergedRasterSaved _) = INFO"
| "level_of (ErrorDuringMerging _) = ERROR"
| "level_of (FileAlreadyExists _) = INFO"
| "level_of (DownloadedFile _) = INFO"
| "level_of (ErrorDownloading _ _ _ _ _) = WARNING"
| "level_of (FailedToDownload _ _) = ERROR"
| "level_of (NoValidDownloads _ _) = WARNING"
| "level_of (RemovedTemporaryFile _) = INFO"
| "level_of (CouldNotRemove _ _) = WARNING"
| "level_of (YearRequired _ _) = WARNING"
| "level_of (UnexpectedError _ _ _) = ERROR"
| "level_of (ErrorInThread _) = ERROR"
| "level_of ProcessingComplete = INFO"

record world =
  files :: "string \<rightharpoonup> fstate"
  dirs :: "string set"
  handles :: "string multiset"
  log :: "log_record list"
  events :: "event list"
  faults :: "bool list"

definition logger :: "log_record \<Rightarrow> world \<Rightarrow> world" where
  "logger r w = w\<lparr>log := log w @ [r]\<rparr>"

text \<open>
  A call into a library: it is recorded, and it raises \<open>e\<close> when the next entry of
  \<open>faults\<close> says so. Once the list is used up every call succeeds.
\<close>

definition ext :: "event \<Rightarrow> exn \<Rightarrow> world \<Rightarrow> (exn + unit) \<times> world" where
  "ext ev e w =
     (case faults w of
        [] \<Rightarrow> (Inr (), w\<lparr>events := events w @ [ev]\<rparr>)
      | f # fs \<Rightarrow> (if f then Inl e else Inr (), w\<lparr>events := events w @ [ev], faults := fs\<rparr>))"

subsection \<open>The file system\<close>

text \<open>\<open>os.path.exists\<close>\<close>

definition path_exists :: "world \<Rightarrow> string \<Rightarrow> bool" where
  "path_exists w p = (files w p \<noteq> None \<or> p \<in> dirs w)"

text \<open>\<open>os.makedirs(p, exist_ok=True)\<close>: a file in the way is an error.\<close>

definition makedirs :: "string \<Rightarrow> world \<Rightarrow> (exn + unit) \<times> world" where
  "makedirs p w =
     (if files w p \<noteq> None then (Inl OSError, w)
      else (case ext (MakeDirs p) OSError w of
              (Inl e, w1) \<Rightarrow> (Inl e, w1)
            | (Inr _, w1) \<Rightarrow> (Inr (), w1\<lparr>dirs := insert p (dirs w1)\<rparr>)))"

text \<open>\<open>open(p, "wb")\<close>: the file exists, empty, from here on.\<close>

definition open_wb :: "string \<Rightarrow> world \<Rightarrow> (exn + unit) \<times> world" where
  "open_wb p w =
     (if p \<in> dirs w then (Inl OSError, w)
      else (case ext (OpenWrite p) OSError w of
              (Inl e, w1) \<Rightarrow> (Inl e, w1)
            | (Inr _, w1) \<Rightarrow> (Inr (), w1\<lparr>files := (files w1)(p \<mapsto> Partial)\<rparr>)))"

text \<open>\<open>os.remove\<close>\<close>

definition os_remove :: "string \<Rightarrow> world \<Rightarrow> (exn + unit) \<times> world" where
  "os_remove p w =
     (if files w p = None then (Inl FileNotFoundError, w)
      else (case ext (Remove p) OSError w of
              (Inl e, w1) \<Rightarrow> (Inl e, w1)
            | (Inr _, w1) \<Rightarrow> (Inr (), w1\<lparr>files := (files w1)(p := None)\<rparr>)))"

subsection \<open>\<open>merge_rasters\<close>\<close>

text \<open>
  \<open>rasterio.open(fp)\<close> for reading. A handle is identified by the path it was opened on;
  \<open>handles\<close> counts the open ones.
\<close>

definition rasterio_open :: "string \<Rightarrow> world \<Rightarrow> (exn + string) \<times> world" where
  "rasterio_open fp w =
     (if files w fp = None then (Inl RasterioIOError, w)
      else (case ext (RasterOpen fp) RasterioIOError w of
              (Inl e, w1) \<Rightarrow> (Inl e, w1)
            | (Inr _, w1) \<Rightarrow> (Inr fp, w1\<lparr>handles := add_mset fp (handles w1)\<rparr>)))"

definition src_close :: "string \<Rightarrow> world \<Rightarrow> world" where
  "src_close src w = w\<lparr>handles := handles w - {#src#}\<rparr>"

text \<open>
  The loop \<open>for fp in file_list\<close>. It returns the local list \<open>src_files\<close> as it stands
  when the loop ends, and the exception that ended it, if one did.
\<close>

fun open_sources :: "string list \<Rightarrow> string list \<Rightarrow> world \<Rightarrow> (string list \<times> exn option) \<times> world" where
  "open_sources [] src_files w = ((src_files, None), w)"
| "open_sources (fp # fps) src_files w =
     (case rasterio_open fp w of
        (Inl e, w1) \<Rightarrow> ((src_files, Some e), w1)
      | (Inr src, w1) \<Rightarrow> open_sources fps (src_files @ [src]) w1)"

text \<open>
  The rest of the \<open>try\<close> block: \<open>merge(src_files)\<close>, which fails on an empty list, the
  metadata of \<open>src_files[0]\<close>, and the output opened for writing and written. The \<open>with\<close>
  statement closes the output on every exit.
\<close>

definition merge_and_write :: "string list \<Rightarrow> string \<Rightarrow> world \<Rightarrow> (exn + unit) \<times> world" where
  "merge_and_write src_files output_path w =
     (if src_files = [] then (Inl IndexError, w)
      else (case ext (RasterMerge src_files) RasterioIOError w of
              (Inl e, w1) \<Rightarrow> (Inl e, w1)
            | (Inr _, w1) \<Rightarrow>
                (case ext (RasterCreate output_path) RasterioIOError w1 of
                   (Inl e, w2) \<Rightarrow> (Inl e, w2)
                 | (Inr _, w2) \<Rightarrow>
                     (case ext (RasterWrite output_path) RasterioIOError
                             (w2\<lparr>files := (files w2)(output_path \<mapsto> Partial)\<rparr>) of
                        (Inl e, w3) \<Rightarrow> (Inl e, w3)
                      | (Inr _, w3) \<Rightarrow>
                          (Inr (), logger (MergedRasterSaved output_path)
                                     (w3\<lparr>files := (files w3)(output_path \<mapsto> Complete)\<rparr>))))))"

text \<open>The \<open>finally\<close> clause.\<close>

fun close_all :: "string list \<Rightarrow> world \<Rightarrow> world" where
  "close_all [] w = w"
| "close_all (src # srcs) w = close_all srcs (src_close src w)"

definition merge_rasters :: "string list \<Rightarrow> string \<Rightarrow> world \<Rightarrow> (exn + unit) \<times> world" where
  "merge_rasters file_list output_path w =
     (case open_sources file_list [] w of
        ((src_files, Some exc), w1) \<Rightarrow>
          (Inr (), close_all src_files (logger (ErrorDuringMerging exc) w1))
      | ((src_files, None), w1) \<Rightarrow>
          (case merge_and_write src_files output_path w1 of
             (Inl exc, w2) \<Rightarrow> (Inr (), close_all src_files (logger (ErrorDuringMerging exc) w2))
           | (Inr _, w2) \<Rightarrow> (Inr (), close_all src_files w2)))"

subsection \<open>\<open>download_file\<close>\<close>

text \<open>
  \<open>download_file(url, directory, filename)\<close> as the pipeline calls it, with the file name
  given. \<open>requests.get\<close> may raise; \<open>raise_for_status\<close> may raise; then the target is
  opened for writing and the chunks are streamed into it. The loop that reads the chunks
  and writes them is one step; when it fails, the file that \<open>open\<close> created stays.
\<close>

definition download_file :: "download_url \<Rightarrow> string \<Rightarrow> string \<Rightarrow> world \<Rightarrow> (exn + string) \<times> world" where
  "download_file url directory filename w =
     (let filepath = path_join directory filename in
      if path_exists w filepath then (Inr filename, w)
      else (case ext (HttpGet url) RequestException w of
              (Inl e, w1) \<Rightarrow> (Inl e, w1)
            | (Inr _, w1) \<Rightarrow>
                if path_exists w1 filepath then (Inr filename, w1)
                else (case ext RaiseForStatus HTTPError w1 of
                        (Inl e, w2) \<Rightarrow> (Inl e, w2)
                      | (Inr _, w2) \<Rightarrow>
                          (case open_wb filepath w2 of
                             (Inl e, w3) \<Rightarrow> (Inl e, w3)
                           | (Inr _, w3) \<Rightarrow>
                               (case ext (IterContent filepath) ChunkedEncodingError w3 of
                                  (Inl e, w4) \<Rightarrow> (Inl e, w4)
                                | (Inr _, w4) \<Rightarrow>
                                    (Inr filename,
                                     w4\<lparr>files := (files w4)(filepath \<mapsto> Complete)\<rparr>))))))"

subsection \<open>The request and the names of the artifacts\<close>

text \<open>The arguments of \<open>download_gee_data_single_collection\<close> that its nested functions read.\<close>

record request =
  collection :: string
  band :: string
  output_folder :: string
  scale :: int
  crs :: string
  frequency :: string

text \<open>
  The names global to the module \<open>GEE_utilities\<close>: what its \<open>import\<close> statements bind,
  \<open>logger\<close>, and the functions it defines.
\<close>

definition module_globals :: "string list" where
  "module_globals =
     [''os'', ''calendar'', ''logging'', ''ThreadPoolExecutor'', ''as_completed'', ''Path'',
      ''List'', ''Optional'', ''Any'', ''ee'', ''gpd'', ''service_account'', ''Polygon'',
      ''MultiPolygon'', ''rasterio'', ''merge'', ''download_file'', ''get_filename_from_cd'',
      ''logger'', ''merge_rasters'', ''initialize_gee'', ''download_gee_data_single_collection'',
      ''download_gee_data_single_image'', ''merge_tifs_in_directory'']"

text \<open>
  \<open>time.sleep(t)\<close>. The name \<open>time\<close> is neither local nor built in, so it is looked up
  among the globals of the module, and the lookup raises \<open>NameError\<close> when it is not there.
\<close>

definition time_sleep :: "real \<Rightarrow> world \<Rightarrow> (exn + unit) \<times> world" where
  "time_sleep t w =
     (if ''time'' \<in> set module_globals then (Inr (), w\<lparr>events := events w @ [Sleep t]\<rparr>)
      else (Inl (NameError ''time''), w))"

text \<open>
  \<open>f"{collection.split('/')[-1]}_{band}_{time_suffix}_{region_code}.tif"\<close>, the value of both
  \<open>merged_filename\<close> and \<open>final_filename\<close>, and the same with \<open>_part{idx}\<close>.
\<close>

definition final_filename :: "request \<Rightarrow> string \<Rightarrow> string \<Rightarrow> string" where
  "final_filename rq time_suffix region_code =
     collection_leaf (collection rq) @ ''_'' @ band rq @ ''_'' @ time_suffix @ ''_'' @ region_code @ ''.tif''"

definition part_filename :: "request \<Rightarrow> string \<Rightarrow> string \<Rightarrow> nat \<Rightarrow> string" where
  "part_filename rq time_suffix region_code idx =
     collection_leaf (collection rq) @ ''_'' @ band rq @ ''_'' @ time_suffix @ ''_'' @ region_code
       @ ''_part'' @ str_nat idx @ ''.tif''"

definition region_folder :: "request \<Rightarrow> string \<Rightarrow> string" where
  "region_folder rq region_code = path_join (output_folder rq) region_code"

definition get_bbox_from_polygon :: "bounds \<Rightarrow> (real \<times> real) list" where
  "get_bbox_from_polygon poly =
     (case poly of (minx, miny, maxx, maxy) \<Rightarrow>
        [(minx, miny), (maxx, miny), (maxx, maxy), (minx, maxy)])"

subsection \<open>\<open>download_for_bbox\<close>\<close>

definition get_download_url :: "ee_image \<Rightarrow> dl_params \<Rightarrow> world \<Rightarrow> (exn + download_url) \<times> world" where
  "get_download_url img params w =
     (case ext (GetDownloadURL img params) EEException w of
        (Inl e, w1) \<Rightarrow> (Inl e, w1)
      | (Inr _, w1) \<Rightarrow> (Inr (DownloadURL img params), w1))"

text \<open>The body of the \<open>try\<close> statement inside the loop over the attempts.\<close>

definition attempt_download :: "string \<Rightarrow> dl_params \<Rightarrow> string \<Rightarrow> ee_image \<Rightarrow> world \<Rightarrow> (exn + string) \<times> world" where
  "attempt_download folder params filename img w =
     (case get_download_url img params w of
        (Inl e, w1) \<Rightarrow> (Inl e, w1)
      | (Inr download_url, w1) \<Rightarrow>
          (case download_file download_url folder filename w1 of
             (Inl e, w2) \<Rightarrow> (Inl e, w2)
           | (Inr _, w2) \<Rightarrow>
               (Inr (path_join folder filename),
                logger (DownloadedFile (path_join folder filename)) w2)))"

text \<open>
  \<open>for attempt in range(1, max_attempts + 1)\<close>, by recursion on the number of attempts
  still to come. The handler logs, computes \<open>0.32 * attempt\<close> and calls \<open>time.sleep\<close>; an
  exception raised there leaves the loop and the function. The code after the loop logs
  the failure and returns \<open>None\<close>.
\<close>

fun download_attempts ::
  "string \<Rightarrow> dl_params \<Rightarrow> string \<Rightarrow> ee_image \<Rightarrow> nat \<Rightarrow> nat \<Rightarrow> nat \<Rightarrow> world
     \<Rightarrow> (exn + string option) \<times> world" where
  "download_attempts folder params filename img max_attempts attempt 0 w =
     (Inr None, logger (FailedToDownload filename max_attempts) w)"
| "download_attempts folder params filename img max_attempts attempt (Suc remaining) w =
     (case attempt_download folder params filename img w of
        (Inr filepath, w1) \<Rightarrow> (Inr (Some filepath), w1)
      | (Inl exc, w1) \<Rightarrow>
          (let wait_time = 0.32 * real attempt in
           case time_sleep wait_time
                  (logger (ErrorDownloading filename attempt max_attempts exc wait_time) w1) of
             (Inl e, w2) \<Rightarrow> (Inl e, w2)
           | (Inr _, w2) \<Rightarrow>
               download_attempts folder params filename img max_attempts (Suc attempt) remaining w2))"

definition download_for_bbox ::
  "request \<Rightarrow> string \<Rightarrow> (real \<times> real) list \<Rightarrow> string \<Rightarrow> ee_image \<Rightarrow> world
     \<Rightarrow> (exn + string option) \<times> world" where
  "download_for_bbox rq folder bbox filename img w =
     (let filepath = path_join folder filename in
      if path_exists w filepath then (Inr (Some filepath), logger (FileAlreadyExists filepath) w)
      else
        (let params = \<lparr>p_scale = scale rq, p_region = bbox, p_format = ''GeoTIFF'', p_crs = crs rq\<rparr>;
             max_attempts = 5
         in download_attempts folder params filename img max_attempts 1 max_attempts w))"

subsection \<open>\<open>process_image\<close>\<close>

text \<open>
  \<open>for idx, poly in enumerate(region_geometry.geoms)\<close>. It returns the local list
  \<open>temp_files\<close> as it stands when the loop ends, and the exception that ended it, if one did.
  \<open>if temp_filepath:\<close> holds for a string that is not empty.
\<close>

fun download_parts ::
  "request \<Rightarrow> string \<Rightarrow> ee_image \<Rightarrow> string \<Rightarrow> nat \<Rightarrow> bounds list \<Rightarrow> string list \<Rightarrow> world
     \<Rightarrow> (string list \<times> exn option) \<times> world" where
  "download_parts rq region_code img time_suffix idx [] temp_files w = ((temp_files, None), w)"
| "download_parts rq region_code img time_suffix idx (poly # polys) temp_files w =
     (case download_for_bbox rq (region_folder rq region_code) (get_bbox_from_polygon poly)
             (part_filename rq time_suffix region_code idx) img w of
        (Inl e, w1) \<Rightarrow> ((temp_files, Some e), w1)
      | (Inr temp_filepath, w1) \<Rightarrow>
          download_parts rq region_code img time_suffix (Suc idx) polys
            (case temp_filepath of
               None \<Rightarrow> temp_files
             | Some fp \<Rightarrow> if fp \<noteq> [] then temp_files @ [fp] else temp_files) w1)"

text \<open>\<open>for fp in temp_files\<close>, each \<open>os.remove\<close> in its own \<open>try\<close>.\<close>

fun remove_temp_files :: "string list \<Rightarrow> world \<Rightarrow> world" where
  "remove_temp_files [] w = w"
| "remove_temp_files (fp # fps) w =
     (case os_remove fp w of
        (Inr _, w1) \<Rightarrow> remove_temp_files fps (logger (RemovedTemporaryFile fp) w1)
      | (Inl e, w1) \<Rightarrow> remove_temp_files fps (logger (CouldNotRemove fp e) w1))"

fun process_image ::
  "request \<Rightarrow> string \<Rightarrow> geometry \<Rightarrow> ee_image \<Rightarrow> string \<Rightarrow> world \<Rightarrow> (exn + unit) \<times> world" where
  "process_image rq region_code (MultiPolygon geoms) img time_suffix w =
     (case download_parts rq region_code img time_suffix 0 geoms [] w of
        ((temp_files, Some e), w1) \<Rightarrow> (Inl e, w1)
      | ((temp_files, None), w1) \<Rightarrow>
          if temp_files = [] then (Inr (), logger (NoValidDownloads region_code time_suffix) w1)
          else
            (let merged_filepath =
                   path_join (region_folder rq region_code) (final_filename rq time_suffix region_code)
             in case merge_rasters temp_files merged_filepath w1 of
                  (Inl e, w2) \<Rightarrow> (Inl e, w2)
                | (Inr _, w2) \<Rightarrow> (Inr (), remove_temp_files temp_files w2)))"
| "process_image rq region_code (Polygon poly) img time_suffix w =
     (case download_for_bbox rq (region_folder rq region_code) (get_bbox_from_polygon poly)
             (final_filename rq time_suffix region_code) img w of
        (Inl e, w1) \<Rightarrow> (Inl e, w1)
      | (Inr _, w1) \<Rightarrow> (Inr (), w1))"

subsection \<open>\<open>process_region\<close>\<close>

text \<open>
  Building an Earth Engine expression can raise in the client library. Consecutive
  client calls with nothing between them are one step: whichever of them raises, the same
  handler sees the same world.
\<close>

definition ee_build :: "world \<Rightarrow> (exn + unit) \<times> world" where
  "ee_build w = ext EEBuild EEException w"

text \<open>\<open>image_collection\<close>, filtered to the year when there is one.\<close>

definition base_collection :: "request \<Rightarrow> int option \<Rightarrow> ee_collection" where
  "base_collection rq year =
     (case year of
        None \<Rightarrow> Select (ImageCollection (collection rq)) (band rq)
      | Some y \<Rightarrow>
          FilterDate (Select (ImageCollection (collection rq)) (band rq))
            (str_int y @ ''-01-01'') (str_int y @ ''-12-31''))"

definition month_start :: "int \<Rightarrow> nat \<Rightarrow> string" where
  "month_start year month = str_int year @ ''-'' @ fmt_02d month @ ''-01''"

definition month_end :: "int \<Rightarrow> nat \<Rightarrow> string" where
  "month_end year month =
     str_int year @ ''-'' @ fmt_02d month @ ''-'' @ str_nat (monthrange_days year month)"

text \<open>The composite of one month: \<open>filterDate\<close>, \<open>mosaic\<close>, \<open>reproject\<close>.\<close>

definition monthly_image :: "request \<Rightarrow> ee_collection \<Rightarrow> int \<Rightarrow> nat \<Rightarrow> ee_image" where
  "monthly_image rq image_collection year month =
     Reproject (Mosaic (FilterDate image_collection (month_start year month) (month_end year month)))
       (crs rq) (scale rq)"

definition monthly_suffix :: "int \<Rightarrow> nat \<Rightarrow> string" where
  "monthly_suffix year month = str_int year @ ''_'' @ fmt_02d month"

definition mosaic_suffix :: "int \<Rightarrow> string" where
  "mosaic_suffix year = str_int year @ ''_monthly_mosaic''"

definition yearly_suffix :: "int option \<Rightarrow> string" where
  "yearly_suffix year = (case year of None \<Rightarrow> [] | Some y \<Rightarrow> str_int y)"

text \<open>The loop of the \<open>monthly\<close> branch, over \<open>range(1, 13)\<close>.\<close>

fun monthly_loop ::
  "request \<Rightarrow> string \<Rightarrow> geometry \<Rightarrow> ee_collection \<Rightarrow> int \<Rightarrow> nat list \<Rightarrow> world
     \<Rightarrow> (exn + unit) \<times> world" where
  "monthly_loop rq region_code region_geometry image_collection year [] w = (Inr (), w)"
| "monthly_loop rq region_code region_geometry image_collection year (month # months) w =
     (case ee_build w of
        (Inl e, w1) \<Rightarrow> (Inl e, w1)
      | (Inr _, w1) \<Rightarrow>
          (case process_image rq region_code region_geometry
                  (monthly_image rq image_collection year month) (monthly_suffix year month) w1 of
             (Inl e, w2) \<Rightarrow> (Inl e, w2)
           | (Inr _, w2) \<Rightarrow>
               monthly_loop rq region_code region_geometry image_collection year months w2))"

text \<open>The loop of the \<open>monthly_mosaic\<close> branch, which fills \<open>monthly_images\<close>.\<close>

fun monthly_images_loop ::
  "request \<Rightarrow> ee_collection \<Rightarrow> int \<Rightarrow> nat list \<Rightarrow> ee_image list \<Rightarrow> world
     \<Rightarrow> (exn + ee_image list) \<times> world" where
  "monthly_images_loop rq image_collection year [] monthly_images w = (Inr monthly_images, w)"
| "monthly_images_loop rq image_collection year (month # months) monthly_images w =
     (case ee_build w of
        (Inl e, w1) \<Rightarrow> (Inl e, w1)
      | (Inr _, w1) \<Rightarrow>
          monthly_images_loop rq image_collection year months
            (monthly_images @ [monthly_image rq image_collection year month]) w1)"

text \<open>The \<open>try\<close> block of \<open>process_region\<close>.\<close>

definition process_region_body ::
  "request \<Rightarrow> string \<Rightarrow> geometry \<Rightarrow> int option \<Rightarrow> world \<Rightarrow> (exn + unit) \<times> world" where
  "process_region_body rq region_code region_geometry year w =
     (case ee_build w of
        (Inl e, w1) \<Rightarrow> (Inl e, w1)
      | (Inr _, w1) \<Rightarrow>
     (let image_collection = base_collection rq year in
      case makedirs (region_folder rq region_code) w1 of
        (Inl e, w2) \<Rightarrow> (Inl e, w2)
      | (Inr _, w2) \<Rightarrow>
     if frequency rq = ''yearly'' then
       (case ee_build w2 of
          (Inl e, w3) \<Rightarrow> (Inl e, w3)
        | (Inr _, w3) \<Rightarrow>
            process_image rq region_code region_geometry
              (Reproject (Mosaic image_collection) (crs rq) (scale rq)) (yearly_suffix year) w3)
     else if frequency rq = ''monthly'' then
       (case year of
          None \<Rightarrow> (Inr (), logger (YearRequired ''monthly'' region_code) w2)
        | Some y \<Rightarrow> monthly_loop rq region_code region_geometry image_collection y [1..<13] w2)
     else if frequency rq = ''monthly_mosaic'' then
       (case year of
          None \<Rightarrow> (Inr (), logger (YearRequired ''monthly_mosaic'' region_code) w2)
        | Some y \<Rightarrow>
            (case monthly_images_loop rq image_collection y [1..<13] [] w2 of
               (Inl e, w3) \<Rightarrow> (Inl e, w3)
             | (Inr monthly_images, w3) \<Rightarrow>
                 (case ee_build w3 of
                    (Inl e, w4) \<Rightarrow> (Inl e, w4)
                  | (Inr _, w4) \<Rightarrow>
                      process_image rq region_code region_geometry
                        (Mosaic (FromImages monthly_images)) (mosaic_suffix y) w4)))
     else (Inr (), w2)))"

text \<open>\<open>process_region\<close>: the block, and the clause \<open>except Exception\<close> that logs.\<close>

definition process_region ::
  "request \<Rightarrow> string \<Rightarrow> geometry \<Rightarrow> int option \<Rightarrow> world \<Rightarrow> (exn + unit) \<times> world" where
  "process_region rq region_code region_geometry year w =
     (case process_region_body rq region_code region_geometry year w of
        (Inl exc, w1) \<Rightarrow> (Inr (), logger (UnexpectedError region_code year exc) w1)
      | (Inr _, w1) \<Rightarrow> (Inr (), w1))"

subsection \<open>\<open>download_gee_data_single_collection\<close>\<close>

text \<open>
  The rows of the data frame are pairs of the region identifier (the column
  \<open>column_name\<close>) and the geometry. A task is the argument list of one \<open>executor.submit\<close>.
  \<open>if years:\<close> fails for \<open>None\<close> and for the empty list.
\<close>

type_synonym task = "string \<times> geometry \<times> int option"

definition enumerate_tasks :: "(string \<times> geometry) list \<Rightarrow> int list option \<Rightarrow> task list" where
  "enumerate_tasks gdf years =
     concat (map (\<lambda>(region_code, region_geometry).
                    (case years of
                       None \<Rightarrow> [(region_code, region_geometry, None)]
                     | Some [] \<Rightarrow> [(region_code, region_geometry, None)]
                     | Some ys \<Rightarrow> map (\<lambda>yr. (region_code, region_geometry, Some yr)) ys)) gdf)"

text \<open>
  The worker pool is modelled by one schedule: the tasks run to completion one after the
  other, in the order of submission. Each future keeps what its task returned or raised.
\<close>

fun run_tasks :: "request \<Rightarrow> task list \<Rightarrow> world \<Rightarrow> (exn + unit) list \<times> world" where
  "run_tasks rq [] w = ([], w)"
| "run_tasks rq ((region_code, region_geometry, year) # ts) w =
     (case process_region rq region_code region_geometry year w of
        (r, w1) \<Rightarrow> (case run_tasks rq ts w1 of (rs, w2) \<Rightarrow> (r # rs, w2)))"

text \<open>\<open>for future in as_completed(tasks)\<close>: an exception of a task is logged.\<close>

fun collect_results :: "(exn + unit) list \<Rightarrow> world \<Rightarrow> world" where
  "collect_results [] w = w"
| "collect_results (Inl exc # rs) w = collect_results rs (logger (ErrorInThread exc) w)"
| "collect_results (Inr _ # rs) w = collect_results rs w"

text \<open>\<open>ThreadPoolExecutor(max_workers=n)\<close> raises \<open>ValueError\<close> unless \<open>n\<close> is positive.\<close>

definition download_gee_data_single_collection ::
  "(string \<times> geometry) list \<Rightarrow> request \<Rightarrow> int list option \<Rightarrow> int \<Rightarrow> world \<Rightarrow> (exn + unit) \<times> world" where
  "download_gee_data_single_collection gdf rq years max_workers w =
     (if frequency rq \<notin> {''yearly'', ''monthly'', ''monthly_mosaic''}
      then (Inl (ValueError (''Unsupported frequency: '' @ frequency rq)), w)
      else
        (case makedirs (output_folder rq) w of
           (Inl e, w1) \<Rightarrow> (Inl e, w1)
         | (Inr _, w1) \<Rightarrow>
             if max_workers \<le> 0 then (Inl (ValueError ''max_workers must be greater than 0''), w1)
             else
               (case run_tasks rq (enumerate_tasks gdf years) w1 of
                  (results, w2) \<Rightarrow> (Inr (), logger ProcessingComplete (collect_results results w2)))))"

subsection \<open>Notions used to state the properties\<close>

text \<open>
  The path of the artifact of a region and time window (\<open>merged_filepath\<close>, and the
  \<open>filepath\<close> of the single-polygon download), and the path of its part \<open>idx\<close>.
\<close>

definition artifact_path :: "request \<Rightarrow> string \<Rightarrow> string \<Rightarrow> string" where
  "artifact_path rq time_suffix region_code =
     path_join (region_folder rq region_code) (final_filename rq time_suffix region_code)"

definition part_path :: "request \<Rightarrow> string \<Rightarrow> string \<Rightarrow> nat \<Rightarrow> string" where
  "part_path rq time_suffix region_code idx =
     path_join (region_folder rq region_code) (part_filename rq time_suffix region_code idx)"

text \<open>The paths \<open>process_image\<close> works on for a geometry and a time suffix.\<close>

definition targets :: "request \<Rightarrow> string \<Rightarrow> geometry \<Rightarrow> string \<Rightarrow> string set" where
  "targets rq region_code region_geometry time_suffix =
     insert (artifact_path rq time_suffix region_code)
       (case region_geometry of
          Polygon _ \<Rightarrow> {}
        | MultiPolygon geoms \<Rightarrow> part_path rq time_suffix region_code ` {..<length geoms})"

text \<open>The time suffixes \<open>process_region\<close> passes to \<open>process_image\<close>, by frequency.\<close>

definition time_suffixes :: "string \<Rightarrow> int option \<Rightarrow> string list" where
  "time_suffixes freq year =
     (if freq = ''yearly'' then [yearly_suffix year]
      else (case year of
              None \<Rightarrow> []
            | Some y \<Rightarrow>
                if freq = ''monthly'' then map (monthly_suffix y) [1..<13]
                else if freq = ''monthly_mosaic'' then [mosaic_suffix y]
                else []))"

text \<open>The forms \<open>""\<close>, \<open>YYYY\<close>, \<open>YYYY_MM\<close> and \<open>YYYY_monthly_mosaic\<close> of a time suffix.\<close>

definition is_time_suffix :: "string \<Rightarrow> bool" where
  "is_time_suffix s =
     (s = [] \<or> (\<exists>y. s = str_int y) \<or>
      (\<exists>y m. 1 \<le> m \<and> m \<le> 12 \<and> s = str_int y @ ''_'' @ fmt_02d m) \<or>
      (\<exists>y. s = str_int y @ ''_monthly_mosaic''))"

text \<open>The calls of the merge step.\<close>

fun is_raster :: "event \<Rightarrow> bool" where
  "is_raster (RasterOpen _) = True"
| "is_raster (RasterMerge _) = True"
| "is_raster (RasterCreate _) = True"
| "is_raster (RasterWrite _) = True"
| "is_raster _ = False"

text \<open>The paths a task works on.\<close>

definition task_targets :: "request \<Rightarrow> task \<Rightarrow> string set" where
  "task_targets rq t =
     (case t of (code, geom, year) \<Rightarrow>
        (\<Union>ts \<in> set (time_suffixes (frequency rq) year). targets rq code geom ts))"

subsection \<open>Concrete inputs\<close>

text \<open>
  A request for the band \<open>B\<close> of the collection \<open>a/b\<close> into the folder \<open>o\<close>, a region \<open>r\<close>
  of one polygon and a region \<open>m\<close> of two, and a world with nothing on disk in which every
  library call succeeds.
\<close>

definition example_request :: "string \<Rightarrow> request" where
  "example_request freq =
     \<lparr>collection = ''a/b'', band = ''B'', output_folder = ''o'', scale = 500, crs = ''c'',
      frequency = freq\<rparr>"

definition example_polygon :: geometry where
  "example_polygon = Polygon (0, 0, 1, 1)"

definition example_multipolygon :: geometry where
  "example_multipolygon = MultiPolygon [(0, 0, 1, 1), (2, 2, 3, 3)]"

definition example_image :: ee_image where
  "example_image = Reproject (Mosaic (Select (ImageCollection ''a/b'') ''B'')) ''c'' 500"

definition example_world :: "(string \<times> fstate) list \<Rightarrow> string list \<Rightarrow> bool list \<Rightarrow> world" where
  "example_world fs ds fl =
     \<lparr>files = map_of fs, dirs = set ds, handles = {#}, log = [], events = [], faults = fl\<rparr>"

section \<open>Properties\<close>

subsection \<open>What a library call and a log record leave alone\<close>

lemma ext_frame:
  "ext ev e w = (r, w1) \<Longrightarrow>
     files w1 = files w \<and> dirs w1 = dirs w \<and> handles w1 = handles w \<and> log w1 = log w"
  by (auto simp: ext_def split: list.splits)

lemma logger_frame [simp]:
  "files (logger r w) = files w" "dirs (logger r w) = dirs w" "handles (logger r w) = handles w"
  "events (logger r w) = events w" "faults (logger r w) = faults w"
  "log (logger r w) = log w @ [r]"
  by (simp_all add: logger_def)

lemma ext_facts:
  "ext ev e w = (r, w1) \<Longrightarrow>
     files w1 = files w \<and> dirs w1 = dirs w \<and> handles w1 = handles w \<and> log w1 = log w \<and>
     events w1 = events w @ [ev]"
  by (auto simp: ext_def split: list.splits)

subsection \<open>\<open>merge_rasters\<close> returns normally and closes what it opened\<close>

lemma rasterio_open_frame:
  "rasterio_open fp w = (r, w1) \<Longrightarrow>
     log w1 = log w \<and> files w1 = files w \<and> dirs w1 = dirs w \<and>
     handles w1 = (case r of Inl _ \<Rightarrow> handles w | Inr src \<Rightarrow> add_mset src (handles w))"
  by (auto simp: rasterio_open_def split: if_splits prod.splits sum.splits dest: ext_frame)

lemma open_sources_frame:
  "open_sources fps src_files w = ((srcs, eo), w1) \<Longrightarrow>
     handles w1 + mset src_files = handles w + mset srcs \<and> log w1 = log w \<and>
     files w1 = files w \<and> dirs w1 = dirs w"
proof (induction fps arbitrary: src_files w)
  case Nil
  then show ?case by simp
next
  case (Cons fp fps)
  obtain r w' where step: "rasterio_open fp w = (r, w')"
    by (cases "rasterio_open fp w")
  show ?case
  proof (cases r)
    case (Inl e)
    with Cons.prems step rasterio_open_frame [OF step] show ?thesis by auto
  next
    case (Inr src)
    with Cons.prems step have "open_sources fps (src_files @ [src]) w' = ((srcs, eo), w1)"
      by simp
    from Cons.IH [OF this] rasterio_open_frame [OF step] Inr show ?thesis
      by simp
  qed
qed

lemma close_all_frame:
  "handles (close_all srcs w) = handles w - mset srcs \<and> log (close_all srcs w) = log w \<and>
   files (close_all srcs w) = files w \<and> dirs (close_all srcs w) = dirs w \<and>
   events (close_all srcs w) = events w \<and> faults (close_all srcs w) = faults w"
  by (induction srcs arbitrary: w) (simp_all add: src_close_def)

lemma merge_and_write_frame:
  "merge_and_write src_files output_path w = (r, w1) \<Longrightarrow>
     handles w1 = handles w \<and> dirs w1 = dirs w \<and>
     log w1 = (case r of Inl _ \<Rightarrow> log w | Inr _ \<Rightarrow> log w @ [MergedRasterSaved output_path])"
  by (auto simp: merge_and_write_def split: if_splits prod.splits sum.splits dest!: ext_frame)

lemma merge_rasters_facts:
  "fst (merge_rasters file_list output_path w) = Inr () \<and>
   handles (snd (merge_rasters file_list output_path w)) = handles w \<and>
   (log (snd (merge_rasters file_list output_path w)) = log w @ [MergedRasterSaved output_path] \<or>
    (\<exists>exc. log (snd (merge_rasters file_list output_path w)) = log w @ [ErrorDuringMerging exc]))"
proof -
  obtain src_files eo w1 where o: "open_sources file_list [] w = ((src_files, eo), w1)"
    by (metis surj_pair)
  from open_sources_frame [OF o]
  have h1: "handles w1 = handles w + mset src_files" and l1: "log w1 = log w"
    by simp_all
  show ?thesis
  proof (cases eo)
    case (Some exc)
    with o h1 l1 show ?thesis
      by (simp add: merge_rasters_def close_all_frame)
  next
    case None
    obtain r w2 where m: "merge_and_write src_files output_path w1 = (r, w2)"
      by (cases "merge_and_write src_files output_path w1")
    from merge_and_write_frame [OF m] o None m h1 l1 show ?thesis
      by (cases r) (simp_all add: merge_rasters_def close_all_frame)
  qed
qed


subsection \<open>An unsupported frequency\<close>

text \<open>
  Claim C5. Called with a frequency other than \<open>yearly\<close>, \<open>monthly\<close> and
  \<open>monthly_mosaic\<close>, \<open>download_gee_data_single_collection\<close> raises \<open>ValueError\<close> and the
  world is the one it was called in: no directory and no file was created, no library
  call was made and no task has run.
\<close>

theorem unsupported_frequency_raises:
  "frequency rq \<notin> {''yearly'', ''monthly'', ''monthly_mosaic''} \<Longrightarrow>
     download_gee_data_single_collection gdf rq years max_workers w =
       (Inl (ValueError (''Unsupported frequency: '' @ frequency rq)), w)"
  by (simp add: download_gee_data_single_collection_def)

theorem unsupported_frequency_raises_witness:
  "frequency (example_request ''weekly'') \<notin> {''yearly'', ''monthly'', ''monthly_mosaic''} \<and>
   download_gee_data_single_collection [(''r'', example_polygon)] (example_request ''weekly'')
       (Some [2021]) 5 (example_world [] [] []) =
     (Inl (ValueError ''Unsupported frequency: weekly''), example_world [] [] [])"
proof -
  have h: "frequency (example_request ''weekly'') \<notin> {''yearly'', ''monthly'', ''monthly_mosaic''}"
    by (simp add: example_request_def)
  from unsupported_frequency_raises [OF h] h show ?thesis
    by (simp add: example_request_def)
qed

subsection \<open>Exceptions stop at the task boundary\<close>

lemma process_region_returns:
  "fst (process_region rq region_code region_geometry year w) = Inr ()"
  by (simp add: process_region_def split: prod.splits sum.splits)

lemma run_tasks_results:
  "fst (run_tasks rq ts w) = replicate (length ts) (Inr ())"
proof (induction ts arbitrary: w)
  case Nil
  then show ?case by simp
next
  case (Cons t ts)
  obtain region_code region_geometry year where t: "t = (region_code, region_geometry, year)"
    by (cases t)
  obtain r w1 where p: "process_region rq region_code region_geometry year w = (r, w1)"
    by (cases "process_region rq region_code region_geometry year w")
  from process_region_returns [of rq region_code region_geometry year w] p have "r = Inr ()"
    by simp
  with Cons.IH [of w1] t p show ?case
    by (cases "run_tasks rq ts w1") simp
qed

text \<open>
  Claim C6. An exception raised anywhere in the body of a task is caught by the
  \<open>except Exception\<close> clause of \<open>process_region\<close>, which logs it together with the region
  and the year; \<open>process_region\<close> itself returns normally. So every submitted task runs
  and returns normally whatever happened in the tasks before it, and once the frequency
  is supported, the output folder could be made and the pool could be created, the
  top-level call returns normally too.
\<close>

theorem task_exceptions_are_caught:
  "fst (process_region rq region_code region_geometry year w) = Inr () \<and>
   (\<forall>exc w1. process_region_body rq region_code region_geometry year w = (Inl exc, w1) \<longrightarrow>
      snd (process_region rq region_code region_geometry year w) =
        logger (UnexpectedError region_code year exc) w1) \<and>
   fst (run_tasks rq ts w) = replicate (length ts) (Inr ()) \<and>
   (frequency rq \<in> {''yearly'', ''monthly'', ''monthly_mosaic''} \<and>
    fst (makedirs (output_folder rq) w) = Inr () \<and> 0 < max_workers \<longrightarrow>
      fst (download_gee_data_single_collection gdf rq years max_workers w) = Inr ())"
proof (intro conjI allI impI)
  show "fst (process_region rq region_code region_geometry year w) = Inr ()"
    by (rule process_region_returns)
  show "fst (run_tasks rq ts w) = replicate (length ts) (Inr ())"
    by (rule run_tasks_results)
next
  fix exc w1
  assume "process_region_body rq region_code region_geometry year w = (Inl exc, w1)"
  then show "snd (process_region rq region_code region_geometry year w) =
      logger (UnexpectedError region_code year exc) w1"
    by (simp add: process_region_def)
next
  assume a: "frequency rq \<in> {''yearly'', ''monthly'', ''monthly_mosaic''} \<and>
    fst (makedirs (output_folder rq) w) = Inr () \<and> 0 < max_workers"
  then obtain w1 where "makedirs (output_folder rq) w = (Inr (), w1)"
    by (cases "makedirs (output_folder rq) w") auto
  with a show "fst (download_gee_data_single_collection gdf rq years max_workers w) = Inr ()"
    by (auto simp: download_gee_data_single_collection_def split: prod.splits)
qed

theorem task_exceptions_are_caught_witness:
  "fst (process_region_body (example_request ''yearly'') ''r'' example_polygon (Some 2021)
          (example_world [] [] [False, False, False, True])) = Inl (NameError ''time'') \<and>
   last (log (snd (process_region (example_request ''yearly'') ''r'' example_polygon (Some 2021)
          (example_world [] [] [False, False, False, True])))) =
     UnexpectedError ''r'' (Some 2021) (NameError ''time'') \<and>
   fst (run_tasks (example_request ''yearly'')
          [(''r'', example_polygon, Some 2021), (''m'', example_multipolygon, Some 2021)]
          (example_world [] [] [False, False, False, True])) = [Inr (), Inr ()] \<and>
   frequency (example_request ''yearly'') \<in> {''yearly'', ''monthly'', ''monthly_mosaic''} \<and>
   fst (makedirs (output_folder (example_request ''yearly''))
          (example_world [] [] [False, False, False, False, True])) = Inr () \<and>
   fst (download_gee_data_single_collection [(''r'', example_polygon), (''m'', example_multipolygon)]
          (example_request ''yearly'') (Some [2021]) 5
          (example_world [] [] [False, False, False, False, True])) = Inr ()"
proof -
  let ?rq = "example_request ''yearly''"
  let ?w = "example_world [] [] [False, False, False, True]"
  let ?w' = "example_world [] [] [False, False, False, False, True]"
  have b: "fst (process_region_body ?rq ''r'' example_polygon (Some 2021) ?w) = Inl (NameError ''time'')"
    by code_simp
  then have b': "process_region_body ?rq ''r'' example_polygon (Some 2021) ?w =
      (Inl (NameError ''time''), snd (process_region_body ?rq ''r'' example_polygon (Some 2021) ?w))"
    by (metis prod.collapse)
  have f: "frequency ?rq \<in> {''yearly'', ''monthly'', ''monthly_mosaic''}"
    by (simp add: example_request_def)
  have m: "fst (makedirs (output_folder ?rq) ?w') = Inr ()"
    by code_simp
  note t1 = task_exceptions_are_caught [of ?rq "''r''" example_polygon "Some 2021" ?w
      "[(''r'', example_polygon, Some 2021), (''m'', example_multipolygon, Some 2021)]" 5]
  note t2 = task_exceptions_are_caught [of ?rq "''r''" example_polygon "Some 2021" ?w' "[]" 5
      "[(''r'', example_polygon), (''m'', example_multipolygon)]" "Some [2021]"]
  from t1 b' have l: "last (log (snd (process_region ?rq ''r'' example_polygon (Some 2021) ?w))) =
     UnexpectedError ''r'' (Some 2021) (NameError ''time'')"
    by simp
  from t1 have r: "fst (run_tasks ?rq
          [(''r'', example_polygon, Some 2021), (''m'', example_multipolygon, Some 2021)] ?w) = [Inr (), Inr ()]"
    by simp
  have p: "(0::int) < 5"
    by simp
  from t2 f m p have d: "fst (download_gee_data_single_collection [(''r'', example_polygon), (''m'', example_multipolygon)]
          ?rq (Some [2021]) 5 ?w') = Inr ()"
    by blast
  from b l r f m d show ?thesis by blast
qed


subsection \<open>Names and paths\<close>

lemma split_on_pieces:
  "split_on c s \<noteq> [] \<and> (\<forall>piece \<in> set (split_on c s). c \<notin> set piece)"
  by (induction s) (auto split: list.splits)

lemma collection_leaf_no_slash: "CHR ''/'' \<notin> set (collection_leaf s)"
  using split_on_pieces [of "CHR ''/''" s] by (simp add: collection_leaf_def)

lemma final_filename_relative:
  "final_filename rq ts code \<noteq> [] \<and> hd (final_filename rq ts code) \<noteq> CHR ''/''"
  using collection_leaf_no_slash [of "collection rq"]
  by (cases "collection_leaf (collection rq)") (auto simp: final_filename_def)

lemma part_filename_relative:
  "part_filename rq ts code idx \<noteq> [] \<and> hd (part_filename rq ts code idx) \<noteq> CHR ''/''"
  using collection_leaf_no_slash [of "collection rq"]
  by (cases "collection_leaf (collection rq)") (auto simp: part_filename_def)

lemma path_join_nonempty: "b \<noteq> [] \<Longrightarrow> path_join a b \<noteq> []"
  by (simp add: path_join_def)

lemma path_join_inject:
  "hd b \<noteq> CHR ''/'' \<Longrightarrow> hd c \<noteq> CHR ''/'' \<Longrightarrow> path_join a b = path_join a c \<Longrightarrow> b = c"
  by (auto simp: path_join_def split: if_splits)

lemma final_not_part: "final_filename rq ts code \<noteq> part_filename rq ts code idx"
  by (simp add: final_filename_def part_filename_def)

lemma artifact_not_part: "artifact_path rq ts code \<noteq> part_path rq ts code idx"
  using path_join_inject [of "final_filename rq ts code" "part_filename rq ts code idx"
      "region_folder rq code"]
    final_filename_relative [of rq ts code] part_filename_relative [of rq ts code idx]
    final_not_part [of rq ts code idx]
  by (auto simp: artifact_path_def part_path_def)

lemma artifact_path_nonempty: "artifact_path rq ts code \<noteq> []"
  by (simp add: artifact_path_def path_join_nonempty final_filename_relative)

lemma part_path_nonempty: "part_path rq ts code idx \<noteq> []"
  by (simp add: part_path_def path_join_nonempty part_filename_relative)


subsection \<open>Which files a download can touch\<close>

lemma open_wb_frame:
  "open_wb p w = (r, w1) \<Longrightarrow>
     (\<forall>q. q \<noteq> p \<longrightarrow> files w1 q = files w q) \<and>
     filter is_raster (events w1) = filter is_raster (events w)"
  by (auto simp: open_wb_def split: if_splits prod.splits sum.splits dest!: ext_facts)

lemma download_file_frame:
  assumes "download_file url directory filename w = (r, w')"
  shows "(\<forall>q. q \<noteq> path_join directory filename \<longrightarrow> files w' q = files w q) \<and>
     filter is_raster (events w') = filter is_raster (events w)"
proof -
  let ?p = "path_join directory filename"
  obtain r1 w1 where s1: "ext (HttpGet url) RequestException w = (r1, w1)"
    by (cases "ext (HttpGet url) RequestException w")
  obtain r2 w2 where s2: "ext RaiseForStatus HTTPError w1 = (r2, w2)"
    by (cases "ext RaiseForStatus HTTPError w1")
  obtain r3 w3 where s3: "open_wb ?p w2 = (r3, w3)"
    by (cases "open_wb ?p w2")
  obtain r4 w4 where s4: "ext (IterContent ?p) ChunkedEncodingError w3 = (r4, w4)"
    by (cases "ext (IterContent ?p) ChunkedEncodingError w3")
  from assms s1 s2 s3 s4
  have "w' = w \<or> w' = w1 \<or> w' = w2 \<or> w' = w3 \<or> w' = w4 \<or>
        w' = w4\<lparr>files := (files w4)(?p \<mapsto> Complete)\<rparr>"
    by (simp add: download_file_def Let_def split: if_splits sum.splits)
  moreover have "files w1 = files w \<and> filter is_raster (events w1) = filter is_raster (events w)"
    using ext_facts [OF s1] by simp
  moreover have "files w2 = files w1 \<and> filter is_raster (events w2) = filter is_raster (events w1)"
    using ext_facts [OF s2] by simp
  moreover note open_wb_frame [OF s3]
  moreover have "files w4 = files w3 \<and> filter is_raster (events w4) = filter is_raster (events w3)"
    using ext_facts [OF s4] by simp
  ultimately show ?thesis
    by (elim disjE) simp_all
qed

lemma attempt_download_frame:
  "attempt_download folder params filename img w = (r, w1) \<Longrightarrow>
     (\<forall>q. q \<noteq> path_join folder filename \<longrightarrow> files w1 q = files w q) \<and>
     filter is_raster (events w1) = filter is_raster (events w) \<and>
     (\<forall>fp. r = Inr fp \<longrightarrow> fp = path_join folder filename)"
  by (auto simp: attempt_download_def get_download_url_def
      split: if_splits prod.splits sum.splits dest!: ext_facts download_file_frame)

lemma download_attempts_frame:
  "download_attempts folder params filename img max_attempts attempt remaining w = (r, w1) \<Longrightarrow>
     (\<forall>q. q \<noteq> path_join folder filename \<longrightarrow> files w1 q = files w q) \<and>
     filter is_raster (events w1) = filter is_raster (events w) \<and>
     (\<forall>fp. r = Inr (Some fp) \<longrightarrow> fp = path_join folder filename)"
proof (induction remaining arbitrary: attempt w)
  case 0
  then show ?case by auto
next
  case (Suc remaining)
  obtain r0 w0 where a: "attempt_download folder params filename img w = (r0, w0)"
    by (cases "attempt_download folder params filename img w")
  note f0 = attempt_download_frame [OF a]
  show ?case
  proof (cases r0)
    case (Inr filepath)
    with Suc.prems a f0 show ?thesis by auto
  next
    case (Inl exc)
    let ?w0 = "logger (ErrorDownloading filename attempt max_attempts exc (0.32 * real attempt)) w0"
    obtain r2 w2 where s: "time_sleep (0.32 * real attempt) ?w0 = (r2, w2)"
      by (cases "time_sleep (0.32 * real attempt) ?w0")
    then have f2: "files w2 = files w0 \<and> filter is_raster (events w2) = filter is_raster (events w0)"
      by (auto simp: time_sleep_def split: if_splits)
    show ?thesis
    proof (cases r2)
      case (Inl e)
      with Suc.prems a \<open>r0 = Inl exc\<close> s f0 f2 show ?thesis by (auto simp: Let_def)
    next
      case (Inr u)
      with Suc.prems a \<open>r0 = Inl exc\<close> s
      have "download_attempts folder params filename img max_attempts (Suc attempt) remaining w2 = (r, w1)"
        by (simp add: Let_def)
      from Suc.IH [OF this] f0 f2 show ?thesis by auto
    qed
  qed
qed

lemma download_for_bbox_frame:
  "download_for_bbox rq folder bbox filename img w = (r, w1) \<Longrightarrow>
     (\<forall>q. q \<noteq> path_join folder filename \<longrightarrow> files w1 q = files w q) \<and>
     filter is_raster (events w1) = filter is_raster (events w) \<and>
     (\<forall>fp. r = Inr (Some fp) \<longrightarrow> fp = path_join folder filename)"
  by (auto simp: download_for_bbox_def Let_def split: if_splits dest!: download_attempts_frame)

lemma download_parts_frame:
  "download_parts rq code img ts idx polys acc w = ((temp_files, eo), w1) \<Longrightarrow>
     (\<forall>q. q \<notin> part_path rq ts code ` {idx..<idx + length polys} \<longrightarrow> files w1 q = files w q) \<and>
     filter is_raster (events w1) = filter is_raster (events w) \<and>
     set temp_files \<subseteq> set acc \<union> part_path rq ts code ` {idx..<idx + length polys}"
proof (induction polys arbitrary: idx acc w)
  case Nil
  then show ?case by auto
next
  case (Cons poly polys)
  let ?fn = "part_filename rq ts code idx"
  obtain r0 w0 where d: "download_for_bbox rq (region_folder rq code) (get_bbox_from_polygon poly) ?fn img w = (r0, w0)"
    by (cases "download_for_bbox rq (region_folder rq code) (get_bbox_from_polygon poly) ?fn img w")
  note f0 = download_for_bbox_frame [OF d, folded part_path_def]
  have sub: "part_path rq ts code ` {Suc idx..<Suc idx + length polys}
      \<subseteq> part_path rq ts code ` {idx..<idx + length (poly # polys)}"
    by auto
  have here: "part_path rq ts code idx \<in> part_path rq ts code ` {idx..<idx + length (poly # polys)}"
    by auto
  show ?case
  proof (cases r0)
    case (Inl e)
    with Cons.prems d f0 here show ?thesis by auto
  next
    case (Inr temp_filepath)
    let ?acc = "case temp_filepath of None \<Rightarrow> acc
                | Some fp \<Rightarrow> if fp \<noteq> [] then acc @ [fp] else acc"
    from Cons.prems d Inr
    have "download_parts rq code img ts (Suc idx) polys ?acc w0 = ((temp_files, eo), w1)"
      by simp
    note ih = Cons.IH [OF this]
    from f0 Inr have acc: "set ?acc \<subseteq> set acc \<union> {part_path rq ts code idx}"
      by (auto split: option.splits)
    have "\<forall>q. q \<notin> part_path rq ts code ` {idx..<idx + length (poly # polys)} \<longrightarrow>
        files w1 q = files w q"
    proof (intro allI impI)
      fix q
      assume q: "q \<notin> part_path rq ts code ` {idx..<idx + length (poly # polys)}"
      with sub here have "q \<notin> part_path rq ts code ` {Suc idx..<Suc idx + length polys}"
        and "q \<noteq> part_path rq ts code idx"
        by blast+
      with ih f0 show "files w1 q = files w q"
        by simp
    qed
    moreover from ih f0 have "filter is_raster (events w1) = filter is_raster (events w)"
      by simp
    moreover from ih acc sub here
    have "set temp_files \<subseteq> set acc \<union> part_path rq ts code ` {idx..<idx + length (poly # polys)}"
      by blast
    ultimately show ?thesis by blast
  qed
qed

lemma merge_and_write_files:
  assumes "merge_and_write src_files output_path w = (r, w')"
  shows "\<forall>q. q \<noteq> output_path \<longrightarrow> files w' q = files w q"
proof -
  obtain r1 w1 where s1: "ext (RasterMerge src_files) RasterioIOError w = (r1, w1)"
    by (cases "ext (RasterMerge src_files) RasterioIOError w")
  obtain r2 w2 where s2: "ext (RasterCreate output_path) RasterioIOError w1 = (r2, w2)"
    by (cases "ext (RasterCreate output_path) RasterioIOError w1")
  let ?w2 = "w2\<lparr>files := (files w2)(output_path \<mapsto> Partial)\<rparr>"
  obtain r3 w3 where s3: "ext (RasterWrite output_path) RasterioIOError ?w2 = (r3, w3)"
    by (cases "ext (RasterWrite output_path) RasterioIOError ?w2")
  from assms s1 s2 s3
  have "w' = w \<or> w' = w1 \<or> w' = w2 \<or> w' = w3 \<or>
        w' = logger (MergedRasterSaved output_path) (w3\<lparr>files := (files w3)(output_path \<mapsto> Complete)\<rparr>)"
    by (simp add: merge_and_write_def split: if_splits sum.splits)
  moreover have "files w1 = files w"
    using ext_facts [OF s1] by simp
  moreover have "files w2 = files w1"
    using ext_facts [OF s2] by simp
  moreover have "files w3 = files ?w2"
    using ext_facts [OF s3] by simp
  ultimately show ?thesis
    by (elim disjE) simp_all
qed

lemma merge_rasters_files:
  assumes "merge_rasters file_list output_path w = (r, w')"
  shows "\<forall>q. q \<noteq> output_path \<longrightarrow> files w' q = files w q"
proof -
  obtain src_files eo w1 where o: "open_sources file_list [] w = ((src_files, eo), w1)"
    by (metis surj_pair)
  from open_sources_frame [OF o] have f1: "files w1 = files w"
    by simp
  show ?thesis
  proof (cases eo)
    case (Some exc)
    with assms o f1 show ?thesis
      by (auto simp: merge_rasters_def close_all_frame)
  next
    case None
    obtain r2 w2 where m: "merge_and_write src_files output_path w1 = (r2, w2)"
      by (cases "merge_and_write src_files output_path w1")
    from merge_and_write_files [OF m] assms o None m f1 show ?thesis
      by (cases r2) (auto simp: merge_rasters_def close_all_frame)
  qed
qed

lemma os_remove_files:
  "os_remove p w = (r, w') \<Longrightarrow> \<forall>q. q \<noteq> p \<longrightarrow> files w' q = files w q"
  by (auto simp: os_remove_def split: if_splits prod.splits sum.splits dest!: ext_facts)

lemma remove_temp_files_files:
  "\<forall>q. q \<notin> set fps \<longrightarrow> files (remove_temp_files fps w) q = files w q"
proof (induction fps arbitrary: w)
  case Nil
  then show ?case by simp
next
  case (Cons fp fps)
  obtain r w1 where s: "os_remove fp w = (r, w1)"
    by (cases "os_remove fp w")
  from os_remove_files [OF s] Cons.IH s show ?case
    by (cases r) simp_all
qed

lemma process_image_frame:
  assumes "process_image rq code geom img ts w = (r, w')"
  shows "\<forall>q. q \<notin> targets rq code geom ts \<longrightarrow> files w' q = files w q"
proof (cases geom)
  case (Polygon poly)
  obtain r1 w1 where d: "download_for_bbox rq (region_folder rq code) (get_bbox_from_polygon poly)
      (final_filename rq ts code) img w = (r1, w1)"
    by (metis surj_pair)
  from download_for_bbox_frame [OF d, folded artifact_path_def] assms d Polygon show ?thesis
    by (cases r1) (auto simp: targets_def)
next
  case (MultiPolygon geoms)
  obtain temp_files eo w1 where d: "download_parts rq code img ts 0 geoms [] w = ((temp_files, eo), w1)"
    by (metis surj_pair)
  from download_parts_frame [OF d]
  have f1: "\<forall>q. q \<notin> part_path rq ts code ` {..<length geoms} \<longrightarrow> files w1 q = files w q"
    and t: "set temp_files \<subseteq> part_path rq ts code ` {..<length geoms}"
    by (simp_all add: lessThan_atLeast0)
  show ?thesis
  proof (cases "eo = None \<and> temp_files \<noteq> []")
    case False
    with assms d MultiPolygon have "files w' = files w1"
      by (cases eo) (auto split: if_splits)
    with f1 MultiPolygon show ?thesis
      by (simp add: targets_def)
  next
    case True
    obtain r2 w2 where m: "merge_rasters temp_files (artifact_path rq ts code) w1 = (r2, w2)"
      by (metis surj_pair)
    from merge_rasters_facts [of temp_files "artifact_path rq ts code" w1] m
    have r2: "r2 = Inr ()"
      by simp
    from assms d MultiPolygon True m r2 have w': "w' = remove_temp_files temp_files w2"
      by (simp add: artifact_path_def Let_def)
    show ?thesis
    proof (intro allI impI)
      fix q
      assume "q \<notin> targets rq code geom ts"
      with MultiPolygon have q: "q \<noteq> artifact_path rq ts code"
          "q \<notin> part_path rq ts code ` {..<length geoms}"
        by (simp_all add: targets_def)
      with t have "q \<notin> set temp_files"
        by blast
      with remove_temp_files_files [of temp_files w2] w' have "files w' q = files w2 q"
        by simp
      also from merge_rasters_files [OF m] q have "\<dots> = files w1 q"
        by simp
      also from f1 q have "\<dots> = files w q"
        by simp
      finally show "files w' q = files w q" .
    qed
  qed
qed

lemma makedirs_files: "makedirs p w = (r, w') \<Longrightarrow> files w' = files w"
  by (auto simp: makedirs_def split: if_splits prod.splits sum.splits dest!: ext_facts)

lemma ee_build_files: "ee_build w = (r, w') \<Longrightarrow> files w' = files w"
  by (auto simp: ee_build_def dest!: ext_facts)

lemma monthly_loop_frame:
  "monthly_loop rq code geom coll y months w = (r, w') \<Longrightarrow>
     \<forall>q. q \<notin> (\<Union>m \<in> set months. targets rq code geom (monthly_suffix y m)) \<longrightarrow>
       files w' q = files w q"
proof (induction months arbitrary: w)
  case Nil
  then show ?case by simp
next
  case (Cons month months)
  obtain r1 w1 where b: "ee_build w = (r1, w1)"
    by (cases "ee_build w")
  obtain r2 w2 where p: "process_image rq code geom (monthly_image rq coll y month)
      (monthly_suffix y month) w1 = (r2, w2)"
    by (metis surj_pair)
  note f1 = ee_build_files [OF b] and f2 = process_image_frame [OF p]
  from Cons.prems b p
  have "w' = w1 \<or> w' = w2 \<or> (r1 = Inr () \<and> r2 = Inr () \<and> monthly_loop rq code geom coll y months w2 = (r, w'))"
    by (auto split: sum.splits)
  then show ?case
  proof (elim disjE conjE)
    assume "w' = w1"
    with f1 show ?thesis by simp
  next
    assume "w' = w2"
    with f1 f2 show ?thesis by simp
  next
    assume "monthly_loop rq code geom coll y months w2 = (r, w')"
    from Cons.IH [OF this] f1 f2 show ?thesis by simp
  qed
qed

lemma monthly_images_loop_files:
  "monthly_images_loop rq coll y months acc w = (r, w') \<Longrightarrow> files w' = files w"
proof (induction months arbitrary: acc w)
  case Nil
  then show ?case by simp
next
  case (Cons month months)
  obtain r1 w1 where b: "ee_build w = (r1, w1)"
    by (cases "ee_build w")
  with Cons.prems Cons.IH ee_build_files [OF b] show ?case
    by (cases r1) auto
qed

lemma process_region_body_frame:
  assumes "process_region_body rq code geom year w = (r, w')"
  shows "\<forall>q. q \<notin> (\<Union>ts \<in> set (time_suffixes (frequency rq) year). targets rq code geom ts) \<longrightarrow>
       files w' q = files w q"
proof -
  let ?coll = "base_collection rq year"
  obtain r1 w1 where b1: "ee_build w = (r1, w1)"
    by (cases "ee_build w")
  obtain r2 w2 where m: "makedirs (region_folder rq code) w1 = (r2, w2)"
    by (cases "makedirs (region_folder rq code) w1")
  from ee_build_files [OF b1] makedirs_files [OF m]
  have f2: "files w1 = files w" "files w2 = files w"
    by simp_all
  show ?thesis
  proof (cases "r1 = Inr () \<and> r2 = Inr ()")
    case False
    with assms b1 m have "w' = w1 \<or> w' = w2"
      by (auto simp: process_region_body_def Let_def split: sum.splits)
    with f2 show ?thesis by auto
  next
    case True
    consider (yearly) "frequency rq = ''yearly''"
      | (monthly) "frequency rq = ''monthly''"
      | (mosaic) "frequency rq = ''monthly_mosaic''"
      | (other) "frequency rq \<notin> {''yearly'', ''monthly'', ''monthly_mosaic''}"
      by auto
    then show ?thesis
    proof cases
      case yearly
      obtain r3 w3 where b3: "ee_build w2 = (r3, w3)"
        by (cases "ee_build w2")
      obtain r4 w4 where p: "process_image rq code geom (Reproject (Mosaic ?coll) (crs rq) (scale rq))
          (yearly_suffix year) w3 = (r4, w4)"
        by (metis surj_pair)
      from assms b1 m True yearly b3 p have "w' = w3 \<or> w' = w4"
        by (auto simp: process_region_body_def Let_def split: sum.splits)
      with ee_build_files [OF b3] process_image_frame [OF p] f2 yearly show ?thesis
        by (auto simp: time_suffixes_def)
    next
      case monthly
      show ?thesis
      proof (cases year)
        case None
        with assms b1 m True monthly f2 show ?thesis
          by (auto simp: process_region_body_def Let_def)
      next
        case (Some y)
        with assms b1 m True monthly
        have "monthly_loop rq code geom ?coll y [1..<13] w2 = (r, w')"
          by (auto simp: process_region_body_def Let_def)
        from monthly_loop_frame [OF this] f2 monthly Some show ?thesis
          by (simp add: time_suffixes_def)
      qed
    next
      case mosaic
      show ?thesis
      proof (cases year)
        case None
        with assms b1 m True mosaic f2 show ?thesis
          by (auto simp: process_region_body_def Let_def)
      next
        case (Some y)
        obtain r3 w3 where l: "monthly_images_loop rq ?coll y [1..<13] [] w2 = (r3, w3)"
          by (metis surj_pair)
        obtain r4 w4 where b4: "ee_build w3 = (r4, w4)"
          by (cases "ee_build w3")
        have "\<exists>img r5 w5. process_image rq code geom img (mosaic_suffix y) w4 = (r5, w5) \<and>
            (w' = w3 \<or> w' = w4 \<or> w' = w5)"
        proof (cases r3)
          case (Inl e)
          with assms b1 m True mosaic Some l have "w' = w3"
            by (auto simp: process_region_body_def Let_def)
          then show ?thesis by (metis surj_pair)
        next
          case (Inr monthly_images)
          obtain r5 w5 where p: "process_image rq code geom (Mosaic (FromImages monthly_images))
              (mosaic_suffix y) w4 = (r5, w5)"
            by (metis surj_pair)
          with assms b1 m True mosaic Some l Inr b4 have "w' = w4 \<or> w' = w5"
            by (auto simp: process_region_body_def Let_def split: sum.splits)
          with p show ?thesis by blast
        qed
        then obtain img r5 w5 where p: "process_image rq code geom img (mosaic_suffix y) w4 = (r5, w5)"
          and w': "w' = w3 \<or> w' = w4 \<or> w' = w5"
          by blast
        from w' monthly_images_loop_files [OF l] ee_build_files [OF b4] process_image_frame [OF p]
          f2 mosaic Some show ?thesis
          by (auto simp: time_suffixes_def)
      qed
    next
      case other
      with assms b1 m True f2 show ?thesis
        by (auto simp: process_region_body_def Let_def)
    qed
  qed
qed

lemma process_region_frame:
  assumes "process_region rq code geom year w = (r, w')"
  shows "\<forall>q. q \<notin> (\<Union>ts \<in> set (time_suffixes (frequency rq) year). targets rq code geom ts) \<longrightarrow>
       files w' q = files w q"
proof -
  obtain r1 w1 where b: "process_region_body rq code geom year w = (r1, w1)"
    by (metis surj_pair)
  with assms have "files w' = files w1"
    by (cases r1) (auto simp: process_region_def)
  with process_region_body_frame [OF b] show ?thesis
    by simp
qed

lemma run_tasks_frame:
  "run_tasks rq tasks w = (rs, w') \<Longrightarrow>
     \<forall>q. q \<notin> (\<Union>t \<in> set tasks. task_targets rq t) \<longrightarrow> files w' q = files w q"
proof (induction tasks arbitrary: w rs w')
  case Nil
  then show ?case by simp
next
  case (Cons t tasks)
  obtain code geom year where t: "t = (code, geom, year)"
    by (cases t)
  obtain r w1 where p: "process_region rq code geom year w = (r, w1)"
    by (metis surj_pair)
  obtain rs1 w2 where r: "run_tasks rq tasks w1 = (rs1, w2)"
    by (metis surj_pair)
  from Cons.prems t p r have "w' = w2"
    by simp
  with Cons.IH [OF r] process_region_frame [OF p] t show ?case
    by (simp add: task_targets_def)
qed

lemma collect_results_files: "files (collect_results rs w) = files w"
  by (induction rs w rule: collect_results.induct) simp_all

lemma download_gee_data_frame:
  assumes "files (snd (download_gee_data_single_collection gdf rq years max_workers w)) q \<noteq> files w q"
  shows "q \<in> (\<Union>t \<in> set (enumerate_tasks gdf years). task_targets rq t)"
proof (rule ccontr)
  assume q: "q \<notin> (\<Union>t \<in> set (enumerate_tasks gdf years). task_targets rq t)"
  obtain r1 w1 where m: "makedirs (output_folder rq) w = (r1, w1)"
    by (metis surj_pair)
  obtain rs w2 where r: "run_tasks rq (enumerate_tasks gdf years) w1 = (rs, w2)"
    by (metis surj_pair)
  let ?w' = "snd (download_gee_data_single_collection gdf rq years max_workers w)"
  from m r have "?w' = w \<or> ?w' = w1 \<or> ?w' = logger ProcessingComplete (collect_results rs w2)"
    by (cases r1) (simp_all add: download_gee_data_single_collection_def)
  moreover from makedirs_files [OF m] have "files w1 = files w" .
  moreover from run_tasks_frame [OF r] q have "files w2 q = files w1 q"
    by blast
  ultimately have "files ?w' q = files w q"
    by (elim disjE) (simp_all add: collect_results_files)
  with assms show False by simp
qed


subsection \<open>The layout of the output folder\<close>

lemma enumerate_tasks_rows:
  assumes "(code, geom, year) \<in> set (enumerate_tasks gdf years)"
  shows "(code, geom) \<in> set gdf"
proof (cases years)
  case None
  with assms show ?thesis
    by (auto simp: enumerate_tasks_def)
next
  case (Some ys)
  with assms show ?thesis
    by (cases ys) (auto simp: enumerate_tasks_def)
qed

lemma monthly_suffix_form:
  assumes "m \<in> set [1..<13]"
  shows "is_time_suffix (monthly_suffix y m)"
proof -
  from assms have "1 \<le> m \<and> m \<le> 12"
    by auto
  then have "\<exists>ya ma. 1 \<le> ma \<and> ma \<le> 12 \<and> monthly_suffix y m = str_int ya @ ''_'' @ fmt_02d ma"
    unfolding monthly_suffix_def by blast
  then show ?thesis
    by (simp add: is_time_suffix_def)
qed

lemma time_suffixes_form:
  "ts \<in> set (time_suffixes freq year) \<Longrightarrow> is_time_suffix ts"
proof (cases year)
  case None
  assume "ts \<in> set (time_suffixes freq year)"
  with None show ?thesis
    by (auto simp: time_suffixes_def yearly_suffix_def is_time_suffix_def split: if_splits)
next
  case (Some y)
  assume "ts \<in> set (time_suffixes freq year)"
  with Some consider "ts = str_int y" | "ts \<in> monthly_suffix y ` set [1..<13]" | "ts = mosaic_suffix y"
    by (auto simp: time_suffixes_def yearly_suffix_def split: if_splits)
  then show ?thesis
  proof cases
    case 1
    then show ?thesis by (auto simp: is_time_suffix_def)
  next
    case 2
    then show ?thesis using monthly_suffix_form by blast
  next
    case 3
    then show ?thesis by (auto simp: is_time_suffix_def mosaic_suffix_def)
  qed
qed

text \<open>
  With an output folder and a region identifier that are not empty, do not end in a
  slash and, for the identifier, do not begin with one, \<open>os.path.join\<close> puts one slash
  between the components.
\<close>

lemma path_join_literal:
  "a \<noteq> [] \<Longrightarrow> last a \<noteq> CHR ''/'' \<Longrightarrow> hd b \<noteq> CHR ''/'' \<Longrightarrow> path_join a b = a @ ''/'' @ b"
  by (simp add: path_join_def)

lemma layout_literal:
  assumes "output_folder rq \<noteq> []" and "last (output_folder rq) \<noteq> CHR ''/''"
    and "code \<noteq> []" and "hd code \<noteq> CHR ''/''" and "last code \<noteq> CHR ''/''"
  shows "artifact_path rq ts code = output_folder rq @ ''/'' @ code @ ''/'' @ final_filename rq ts code"
    and "part_path rq ts code idx = output_folder rq @ ''/'' @ code @ ''/'' @ part_filename rq ts code idx"
proof -
  from assms have f: "region_folder rq code = output_folder rq @ ''/'' @ code"
    by (simp add: region_folder_def path_join_literal)
  with assms have "region_folder rq code \<noteq> []" and "last (region_folder rq code) \<noteq> CHR ''/''"
    by simp_all
  with f final_filename_relative [of rq ts code] part_filename_relative [of rq ts code idx]
  show "artifact_path rq ts code = output_folder rq @ ''/'' @ code @ ''/'' @ final_filename rq ts code"
    and "part_path rq ts code idx = output_folder rq @ ''/'' @ code @ ''/'' @ part_filename rq ts code idx"
    by (simp_all add: artifact_path_def part_path_def path_join_literal)
qed

text \<open>
  Claim C8. A file that \<open>download_gee_data_single_collection\<close> creates, writes or removes
  is at \<open>output_folder/region_id/<collection_leaf>_<band>_<time_suffix>_<region_id>.tif\<close>,
  or at the same name with \<open>_part<idx>\<close> before \<open>.tif\<close>, for a row of the data frame
  and a time suffix of one of the forms \<open>""\<close>, \<open>YYYY\<close>, \<open>YYYY_MM\<close>, \<open>YYYY_monthly_mosaic\<close>;
  the paths are composed by \<open>os.path.join\<close>, the collection leaf is the last piece of
  \<open>collection.split('/')\<close>, and a \<open>_part\<close> name occurs only for a multi-polygon, with an
  index of one of its members. The name is the value of the functions \<open>final_filename\<close>
  and \<open>part_filename\<close> of the collection, the band, the time suffix and the region.
\<close>

theorem artifact_layout:
  assumes "files (snd (download_gee_data_single_collection gdf rq years max_workers w)) p \<noteq> files w p"
  shows "\<exists>region_code region_geometry time_suffix.
           (region_code, region_geometry) \<in> set gdf \<and> is_time_suffix time_suffix \<and>
           (p = path_join (path_join (output_folder rq) region_code)
                  (collection_leaf (collection rq) @ ''_'' @ band rq @ ''_'' @ time_suffix @ ''_''
                     @ region_code @ ''.tif'') \<or>
            (\<exists>geoms idx. region_geometry = MultiPolygon geoms \<and> idx < length geoms \<and>
               p = path_join (path_join (output_folder rq) region_code)
                     (collection_leaf (collection rq) @ ''_'' @ band rq @ ''_'' @ time_suffix @ ''_''
                        @ region_code @ ''_part'' @ str_nat idx @ ''.tif'')))"
proof -
  from download_gee_data_frame [OF assms]
  obtain code geom year ts where t: "(code, geom, year) \<in> set (enumerate_tasks gdf years)"
    and ts: "ts \<in> set (time_suffixes (frequency rq) year)" and p: "p \<in> targets rq code geom ts"
    by (auto simp: task_targets_def)
  from t have row: "(code, geom) \<in> set gdf"
    by (rule enumerate_tasks_rows)
  from ts have form: "is_time_suffix ts"
    by (rule time_suffixes_form)
  from p have "p = artifact_path rq ts code \<or>
      (\<exists>geoms idx. geom = MultiPolygon geoms \<and> idx < length geoms \<and> p = part_path rq ts code idx)"
    by (cases geom) (auto simp: targets_def)
  with row form show ?thesis
    unfolding artifact_path_def part_path_def region_folder_def final_filename_def part_filename_def
    by blast
qed

theorem artifact_layout_witness:
  "files (snd (download_gee_data_single_collection [(''r'', example_polygon)]
             (example_request ''yearly'') (Some [2021]) 5 (example_world [] [] [])))
       ''o/r/b_B_2021_r.tif'' \<noteq> files (example_world [] [] []) ''o/r/b_B_2021_r.tif'' \<and>
   (\<exists>region_code region_geometry time_suffix.
      (region_code, region_geometry) \<in> set [(''r'', example_polygon)] \<and> is_time_suffix time_suffix \<and>
      (''o/r/b_B_2021_r.tif'' =
         path_join (path_join (output_folder (example_request ''yearly'')) region_code)
           (collection_leaf (collection (example_request ''yearly'')) @ ''_''
              @ band (example_request ''yearly'') @ ''_'' @ time_suffix @ ''_'' @ region_code @ ''.tif'') \<or>
       (\<exists>geoms idx. region_geometry = MultiPolygon geoms \<and> idx < length geoms \<and>
          ''o/r/b_B_2021_r.tif'' =
            path_join (path_join (output_folder (example_request ''yearly'')) region_code)
              (collection_leaf (collection (example_request ''yearly'')) @ ''_''
                 @ band (example_request ''yearly'') @ ''_'' @ time_suffix @ ''_'' @ region_code
                 @ ''_part'' @ str_nat idx @ ''.tif''))))"
proof -
  have h: "files (snd (download_gee_data_single_collection [(''r'', example_polygon)]
             (example_request ''yearly'') (Some [2021]) 5 (example_world [] [] [])))
       ''o/r/b_B_2021_r.tif'' \<noteq> files (example_world [] [] []) ''o/r/b_B_2021_r.tif''"
    by code_simp
  from artifact_layout [OF h] h show ?thesis
    by blast
qed


subsection \<open>The retry loop\<close>

lemma time_sleep_raises: "time_sleep t w = (Inl (NameError ''time''), w)"
  by (simp add: time_sleep_def module_globals_def)

text \<open>
  Whatever the outcome of the download, \<open>download_for_bbox\<close> either returns the path or
  raises \<open>NameError\<close>: the result \<open>None\<close> of its last line is never returned.
\<close>

lemma download_for_bbox_result:
  "download_for_bbox rq folder bbox filename img w = (r, w1) \<Longrightarrow>
     r = Inl (NameError ''time'') \<or> r = Inr (Some (path_join folder filename))"
  by (auto simp: download_for_bbox_def Let_def numeral_nat time_sleep_raises attempt_download_def
      split: if_splits prod.splits sum.splits)

text \<open>
  Claim C2 (the code departs from it). The target file does not exist and the first
  request for a download reference fails. The handler logs the warning for attempt 1 of 5
  with the delay 0.32 and then calls \<open>time.sleep\<close>; the module never imports \<open>time\<close>, so
  the call raises \<open>NameError\<close>, which leaves the loop and \<open>download_for_bbox\<close>. There is
  one attempt, no sleep, no second attempt, and the function raises instead of returning
  \<open>None\<close>.
\<close>

theorem failed_download_is_not_retried:
  "download_for_bbox (example_request ''yearly'') ''o/r'' [(0, 0), (1, 0), (1, 1), (0, 1)] ''f.tif''
       example_image (example_world [] [''o'', ''o/r''] [True]) =
     (Inl (NameError ''time''),
      \<lparr>files = Map.empty, dirs = {''o'', ''o/r''}, handles = {#},
       log = [ErrorDownloading ''f.tif'' 1 5 EEException 0.32],
       events = [GetDownloadURL example_image
                   \<lparr>p_scale = 500, p_region = [(0, 0), (1, 0), (1, 1), (0, 1)],
                    p_format = ''GeoTIFF'', p_crs = ''c''\<rparr>],
       faults = []\<rparr>)"
  by (simp add: download_for_bbox_def example_request_def example_world_def path_join_def
      path_exists_def attempt_download_def get_download_url_def ext_def time_sleep_def
      module_globals_def logger_def numeral_nat)

subsection \<open>Running again over finished artifacts\<close>

text \<open>
  For a region of one polygon the target of the download is the artifact itself: when
  it exists, \<open>process_image\<close> only logs that it skips it, and makes no call at all.
\<close>

lemma existing_artifact_is_skipped:
  "path_exists w (artifact_path rq ts code) \<Longrightarrow>
     process_image rq code (Polygon poly) img ts w =
       (Inr (), logger (FileAlreadyExists (artifact_path rq ts code)) w)"
  by (simp add: download_for_bbox_def artifact_path_def Let_def)

text \<open>
  Claim C1 (the code departs from it). The region \<open>m\<close> has two polygons and its merged
  artifact for 2021 is complete on disk under its expected name; the part files are gone,
  as they are after every merge. The existence check of \<open>download_for_bbox\<close> is made on the
  names of the parts only, so the run requests a download reference and fetches it for
  each of the two parts: four network calls.
\<close>

theorem rerun_downloads_multipolygon_again:
  "files (example_world [(''o/m/b_B_2021_m.tif'', Complete)] [''o'', ''o/m''] [])
      (artifact_path (example_request ''yearly'') (yearly_suffix (Some 2021)) ''m'') = Some Complete \<and>
   length (filter is_network (events (snd
     (download_gee_data_single_collection [(''m'', example_multipolygon)] (example_request ''yearly'')
        (Some [2021]) 5 (example_world [(''o/m/b_B_2021_m.tif'', Complete)] [''o'', ''o/m''] []))))) = 4"
  by code_simp

subsection \<open>A run in which every library call succeeds\<close>

lemma ext_ok: "faults w = [] \<Longrightarrow> ext ev e w = (Inr (), w\<lparr>events := events w @ [ev]\<rparr>)"
  by (simp add: ext_def)

lemma download_for_bbox_ok:
  assumes "faults w = []" and "path_join folder fn \<notin> dirs w"
  shows "\<exists>w1. download_for_bbox rq folder bbox fn img w = (Inr (Some (path_join folder fn)), w1) \<and>
           faults w1 = [] \<and> dirs w1 = dirs w \<and> files w1 (path_join folder fn) \<noteq> None"
proof (cases "path_exists w (path_join folder fn)")
  case True
  with assms show ?thesis
    by (simp add: download_for_bbox_def path_exists_def Let_def)
next
  case False
  with assms show ?thesis
    by (simp add: download_for_bbox_def Let_def numeral_nat attempt_download_def
        get_download_url_def download_file_def open_wb_def ext_ok path_exists_def)
qed

lemma download_parts_ok:
  assumes "faults w = []"
    and "\<forall>i. idx \<le> i \<and> i < idx + length polys \<longrightarrow> part_path rq ts code i \<notin> dirs w"
  shows "\<exists>w1. download_parts rq code img ts idx polys acc w =
             ((acc @ map (part_path rq ts code) [idx..<idx + length polys], None), w1) \<and>
           faults w1 = [] \<and> dirs w1 = dirs w \<and>
           (\<forall>q. files w q \<noteq> None \<longrightarrow> files w1 q \<noteq> None) \<and>
           (\<forall>i. idx \<le> i \<and> i < idx + length polys \<longrightarrow> files w1 (part_path rq ts code i) \<noteq> None)"
  using assms
proof (induction polys arbitrary: idx acc w)
  case Nil
  then show ?case by auto
next
  case (Cons poly polys)
  let ?p = "part_path rq ts code idx"
  from Cons.prems have nd: "?p \<notin> dirs w"
    by simp
  from download_for_bbox_ok [OF Cons.prems(1) nd [unfolded part_path_def], of rq
      "get_bbox_from_polygon poly" img]
  obtain w0 where d: "download_for_bbox rq (region_folder rq code) (get_bbox_from_polygon poly)
        (part_filename rq ts code idx) img w = (Inr (Some ?p), w0)"
    and f0: "faults w0 = []" and d0: "dirs w0 = dirs w" and e0: "files w0 ?p \<noteq> None"
    by (auto simp: part_path_def)
  from download_for_bbox_frame [OF d, folded part_path_def]
  have fr: "\<forall>q. q \<noteq> ?p \<longrightarrow> files w0 q = files w q"
    by simp
  from Cons.prems d0
  have nd': "\<forall>i. Suc idx \<le> i \<and> i < Suc idx + length polys \<longrightarrow> part_path rq ts code i \<notin> dirs w0"
    by simp
  from Cons.IH [OF f0 nd', of "acc @ [?p]"]
  obtain w1 where r: "download_parts rq code img ts (Suc idx) polys (acc @ [?p]) w0 =
        (((acc @ [?p]) @ map (part_path rq ts code) [Suc idx..<Suc idx + length polys], None), w1)"
    and f1: "faults w1 = []" and d1: "dirs w1 = dirs w0"
    and k1: "\<forall>q. files w0 q \<noteq> None \<longrightarrow> files w1 q \<noteq> None"
    and e1: "\<forall>i. Suc idx \<le> i \<and> i < Suc idx + length polys \<longrightarrow> files w1 (part_path rq ts code i) \<noteq> None"
    by blast
  have l: "[idx..<Suc (idx + length polys)] = idx # [Suc idx..<Suc (idx + length polys)]"
    by (simp add: upt_conv_Cons del: upt_Suc)
  from d r have "download_parts rq code img ts idx (poly # polys) acc w =
      ((acc @ map (part_path rq ts code) [idx..<idx + length (poly # polys)], None), w1)"
    by (simp add: l part_path_nonempty del: upt_Suc)
  moreover have "\<forall>q. files w q \<noteq> None \<longrightarrow> files w1 q \<noteq> None"
  proof (intro allI impI)
    fix q
    assume "files w q \<noteq> None"
    with fr e0 have "files w0 q \<noteq> None"
      by (cases "q = ?p") auto
    with k1 show "files w1 q \<noteq> None"
      by simp
  qed
  moreover have "\<forall>i. idx \<le> i \<and> i < idx + length (poly # polys) \<longrightarrow>
      files w1 (part_path rq ts code i) \<noteq> None"
  proof (intro allI impI)
    fix i
    assume i: "idx \<le> i \<and> i < idx + length (poly # polys)"
    show "files w1 (part_path rq ts code i) \<noteq> None"
    proof (cases "i = idx")
      case True
      with e0 k1 show ?thesis by simp
    next
      case False
      with i e1 show ?thesis by simp
    qed
  qed
  ultimately show ?case
    using f1 d1 d0 by simp
qed

lemma open_sources_ok:
  "faults w = [] \<Longrightarrow> \<forall>fp \<in> set fps. files w fp \<noteq> None \<Longrightarrow>
     \<exists>w1. open_sources fps acc w = ((acc @ fps, None), w1) \<and> faults w1 = [] \<and>
          files w1 = files w"
proof (induction fps arbitrary: acc w)
  case Nil
  then show ?case by simp
next
  case (Cons fp fps)
  let ?w0 = "w\<lparr>events := events w @ [RasterOpen fp], handles := add_mset fp (handles w)\<rparr>"
  from Cons.prems have o: "rasterio_open fp w = (Inr fp, ?w0)"
    by (simp add: rasterio_open_def ext_ok)
  from Cons.prems have "faults ?w0 = []" and "\<forall>fp \<in> set fps. files ?w0 fp \<noteq> None"
    by simp_all
  from Cons.IH [OF this, of "acc @ [fp]"] o show ?case
    by simp
qed

lemma merge_rasters_ok:
  assumes "faults w = []" and "file_list \<noteq> []" and "\<forall>fp \<in> set file_list. files w fp \<noteq> None"
  shows "\<exists>w1. merge_rasters file_list output_path w = (Inr (), w1) \<and> faults w1 = [] \<and>
           files w1 = (files w)(output_path \<mapsto> Complete)"
proof -
  from open_sources_ok [OF assms(1) assms(3), of "[]"]
  obtain w1 where o: "open_sources file_list [] w = ((file_list, None), w1)"
    and f1: "faults w1 = []" and s1: "files w1 = files w"
    by auto
  from f1 assms(2) s1 have "\<exists>w2. merge_and_write file_list output_path w1 = (Inr (), w2) \<and>
      faults w2 = [] \<and> files w2 = (files w)(output_path \<mapsto> Complete)"
    by (simp add: merge_and_write_def ext_ok)
  with o show ?thesis
    by (auto simp: merge_rasters_def close_all_frame)
qed

lemma remove_temp_files_ok:
  "faults w = [] \<Longrightarrow>
     faults (remove_temp_files fps w) = [] \<and>
     (\<forall>q. files (remove_temp_files fps w) q = (if q \<in> set fps then None else files w q))"
proof (induction fps arbitrary: w)
  case Nil
  then show ?case by simp
next
  case (Cons fp fps)
  obtain r w1 where s: "os_remove fp w = (r, w1)"
    by (cases "os_remove fp w")
  with Cons.prems have w1: "faults w1 = [] \<and> files w1 = (files w)(fp := None)"
    by (auto simp: os_remove_def ext_ok split: if_splits)
  then have "faults (logger (RemovedTemporaryFile fp) w1) = []"
      and "\<And>e. faults (logger (CouldNotRemove fp e) w1) = []"
    by simp_all
  from Cons.IH [OF this(1)] Cons.IH [OF this(2)] s w1 show ?case
    by (cases r) auto
qed

lemma process_image_multi_ok:
  assumes "geoms \<noteq> []" and "faults w = []"
    and "\<forall>idx < length geoms. part_path rq ts code idx \<notin> dirs w"
  shows "\<exists>w'. process_image rq code (MultiPolygon geoms) img ts w = (Inr (), w') \<and>
           faults w' = [] \<and> files w' (artifact_path rq ts code) = Some Complete \<and>
           (\<forall>idx < length geoms. files w' (part_path rq ts code idx) = None)"
proof -
  let ?parts = "map (part_path rq ts code) [0..<length geoms]"
  from assms(3) have "\<forall>i. 0 \<le> i \<and> i < 0 + length geoms \<longrightarrow> part_path rq ts code i \<notin> dirs w"
    by simp
  from download_parts_ok [OF assms(2) this, of img "[]"]
  obtain w1 where d: "download_parts rq code img ts 0 geoms [] w = ((?parts, None), w1)"
    and f1: "faults w1 = []"
    and e1: "\<forall>i. i < length geoms \<longrightarrow> files w1 (part_path rq ts code i) \<noteq> None"
    by auto
  from assms(1) have ne: "?parts \<noteq> []"
    by simp
  from e1 have "\<forall>fp \<in> set ?parts. files w1 fp \<noteq> None"
    by auto
  from merge_rasters_ok [OF f1 ne this, of "artifact_path rq ts code"]
  obtain w2 where m: "merge_rasters ?parts (artifact_path rq ts code) w1 = (Inr (), w2)"
    and f2: "faults w2 = []" and s2: "files w2 = (files w1)(artifact_path rq ts code \<mapsto> Complete)"
    by blast
  let ?w' = "remove_temp_files ?parts w2"
  from d m ne have p: "process_image rq code (MultiPolygon geoms) img ts w = (Inr (), ?w')"
    by (simp add: artifact_path_def Let_def)
  note r = remove_temp_files_ok [OF f2, of ?parts]
  have "artifact_path rq ts code \<notin> set ?parts"
    using artifact_not_part by auto
  with r s2 have "files ?w' (artifact_path rq ts code) = Some Complete"
    by simp
  moreover from r have "\<forall>idx < length geoms. files ?w' (part_path rq ts code idx) = None"
    by simp
  ultimately show ?thesis
    using p r by blast
qed

lemma open_sources_events:
  "faults w = [] \<Longrightarrow> \<forall>fp \<in> set fps. files w fp \<noteq> None \<Longrightarrow>
     events (snd (open_sources fps acc w)) = events w @ map RasterOpen fps"
proof (induction fps arbitrary: acc w)
  case Nil
  then show ?case by simp
next
  case (Cons fp fps)
  let ?w0 = "w\<lparr>events := events w @ [RasterOpen fp], handles := add_mset fp (handles w)\<rparr>"
  from Cons.prems have o: "rasterio_open fp w = (Inr fp, ?w0)"
    by (simp add: rasterio_open_def ext_ok)
  from Cons.prems have "faults ?w0 = []" and "\<forall>fp \<in> set fps. files ?w0 fp \<noteq> None"
    by simp_all
  from Cons.IH [OF this, of "acc @ [fp]"] o show ?case
    by simp
qed

lemma merge_rasters_events:
  assumes "faults w = []" and "file_list \<noteq> []" and "\<forall>fp \<in> set file_list. files w fp \<noteq> None"
  shows "events (snd (merge_rasters file_list output_path w)) =
           events w @ map RasterOpen file_list @
             [RasterMerge file_list, RasterCreate output_path, RasterWrite output_path]"
proof -
  from open_sources_ok [OF assms(1) assms(3), of "[]"]
  obtain w1 where o: "open_sources file_list [] w = ((file_list, None), w1)"
    and f1: "faults w1 = []"
    by auto
  from open_sources_events [OF assms(1) assms(3), of "[]"] o
  have e1: "events w1 = events w @ map RasterOpen file_list"
    by simp
  from f1 assms(2) e1 have "\<exists>w2. merge_and_write file_list output_path w1 = (Inr (), w2) \<and>
      events w2 = events w @ map RasterOpen file_list @
             [RasterMerge file_list, RasterCreate output_path, RasterWrite output_path]"
    by (simp add: merge_and_write_def ext_ok)
  with o show ?thesis
    by (auto simp: merge_rasters_def close_all_frame)
qed

lemma remove_temp_files_events:
  "faults w = [] \<Longrightarrow>
     \<exists>rems. events (remove_temp_files fps w) = events w @ rems \<and>
       set rems = Remove ` {fp \<in> set fps. files w fp \<noteq> None}"
proof (induction fps arbitrary: w)
  case Nil
  then show ?case by simp
next
  case (Cons fp fps)
  show ?case
  proof (cases "files w fp = None")
    case True
    then have s: "os_remove fp w = (Inl FileNotFoundError, w)"
      by (simp add: os_remove_def)
    from Cons.prems have "faults (logger (CouldNotRemove fp FileNotFoundError) w) = []"
      by simp
    from Cons.IH [OF this] obtain rems
      where "events (remove_temp_files fps (logger (CouldNotRemove fp FileNotFoundError) w)) = events w @ rems"
        and "set rems = Remove ` {fp' \<in> set fps. files w fp' \<noteq> None}"
      by auto
    moreover from True have "{fp' \<in> set (fp # fps). files w fp' \<noteq> None} = {fp' \<in> set fps. files w fp' \<noteq> None}"
      by auto
    ultimately show ?thesis
      using s by auto
  next
    case False
    let ?w1 = "w\<lparr>events := events w @ [Remove fp], files := (files w)(fp := None)\<rparr>"
    from False Cons.prems have s: "os_remove fp w = (Inr (), ?w1)"
      by (simp add: os_remove_def ext_ok)
    from Cons.prems have "faults (logger (RemovedTemporaryFile fp) ?w1) = []"
      by simp
    from Cons.IH [OF this] obtain rems
      where r: "events (remove_temp_files fps (logger (RemovedTemporaryFile fp) ?w1)) = (events w @ [Remove fp]) @ rems"
        and sr: "set rems = Remove ` {fp' \<in> set fps. files ?w1 fp' \<noteq> None}"
      by auto
    from False sr have "set (Remove fp # rems) = Remove ` {fp' \<in> set (fp # fps). files w fp' \<noteq> None}"
      by auto
    with r s show ?thesis
      by (intro exI [of _ "Remove fp # rems"]) simp
  qed
qed

lemma process_image_multi_events:
  assumes "geoms \<noteq> []" and "faults w = []"
    and "\<forall>idx < length geoms. part_path rq ts code idx \<notin> dirs w"
  shows "\<exists>pre rems. events (snd (process_image rq code (MultiPolygon geoms) img ts w)) =
             pre @ [RasterWrite (artifact_path rq ts code)] @ rems \<and>
           set rems = Remove ` part_path rq ts code ` {..<length geoms}"
proof -
  let ?parts = "map (part_path rq ts code) [0..<length geoms]"
  let ?art = "artifact_path rq ts code"
  from assms(3) have "\<forall>i. 0 \<le> i \<and> i < 0 + length geoms \<longrightarrow> part_path rq ts code i \<notin> dirs w"
    by simp
  from download_parts_ok [OF assms(2) this, of img "[]"]
  obtain w1 where d: "download_parts rq code img ts 0 geoms [] w = ((?parts, None), w1)"
    and f1: "faults w1 = []"
    and e1: "\<forall>i. i < length geoms \<longrightarrow> files w1 (part_path rq ts code i) \<noteq> None"
    by auto
  from assms(1) have ne: "?parts \<noteq> []"
    by simp
  from e1 have ex: "\<forall>fp \<in> set ?parts. files w1 fp \<noteq> None"
    by auto
  from merge_rasters_ok [OF f1 ne ex, of ?art]
  obtain w2 where m: "merge_rasters ?parts ?art w1 = (Inr (), w2)"
    and f2: "faults w2 = []" and s2: "files w2 = (files w1)(?art \<mapsto> Complete)"
    by blast
  from merge_rasters_events [OF f1 ne ex, of ?art] m
  have e2: "events w2 = (events w1 @ map RasterOpen ?parts @ [RasterMerge ?parts, RasterCreate ?art])
      @ [RasterWrite ?art]"
    by simp
  from d m ne have p: "process_image rq code (MultiPolygon geoms) img ts w =
      (Inr (), remove_temp_files ?parts w2)"
    by (simp add: artifact_path_def Let_def)
  from remove_temp_files_events [OF f2, of ?parts] obtain rems
    where r: "events (remove_temp_files ?parts w2) = events w2 @ rems"
      and sr: "set rems = Remove ` {fp \<in> set ?parts. files w2 fp \<noteq> None}"
    by blast
  from ex s2 have "{fp \<in> set ?parts. files w2 fp \<noteq> None} = set ?parts"
    by (auto simp: artifact_not_part [symmetric])
  with sr have "set rems = Remove ` part_path rq ts code ` {..<length geoms}"
    by (simp add: lessThan_atLeast0)
  with p r e2 show ?thesis
    by (intro exI [of _ "events w1 @ map RasterOpen ?parts @ [RasterMerge ?parts, RasterCreate ?art]"]
        exI [of _ rems]) simp
qed


subsection \<open>The parts after the merge\<close>

text \<open>
  Claim C4. A region of several polygons is processed in a run in which every library
  call succeeds (no part's path is a directory). Then \<open>process_image\<close> returns normally,
  the merged artifact is on disk, completely written, and no part file of the region and
  time window is on disk any more; the removals of the part files are the last calls of
  the run, they come after the merged output has been written, and every part is removed.
\<close>

theorem parts_removed_after_merge:
  assumes "geoms \<noteq> []" and "faults w = []"
    and "\<forall>idx < length geoms. part_path rq time_suffix region_code idx \<notin> dirs w"
  shows "fst (process_image rq region_code (MultiPolygon geoms) img time_suffix w) = Inr () \<and>
         files (snd (process_image rq region_code (MultiPolygon geoms) img time_suffix w))
           (artifact_path rq time_suffix region_code) = Some Complete \<and>
         (\<forall>idx < length geoms.
            files (snd (process_image rq region_code (MultiPolygon geoms) img time_suffix w))
              (part_path rq time_suffix region_code idx) = None) \<and>
         (\<exists>pre rems.
            events (snd (process_image rq region_code (MultiPolygon geoms) img time_suffix w)) =
              pre @ [RasterWrite (artifact_path rq time_suffix region_code)] @ rems \<and>
            set rems = Remove ` part_path rq time_suffix region_code ` {..<length geoms})"
  using process_image_multi_ok [OF assms, of img] process_image_multi_events [OF assms, of img]
  by auto

theorem parts_removed_after_merge_witness:
  "faults (example_world [] [''o'', ''o/m''] []) = [] \<and>
   fst (process_image (example_request ''yearly'') ''m'' (MultiPolygon [(0, 0, 1, 1), (2, 2, 3, 3)])
          example_image ''2021'' (example_world [] [''o'', ''o/m''] [])) = Inr () \<and>
   files (snd (process_image (example_request ''yearly'') ''m'' (MultiPolygon [(0, 0, 1, 1), (2, 2, 3, 3)])
          example_image ''2021'' (example_world [] [''o'', ''o/m''] [])))
     (artifact_path (example_request ''yearly'') ''2021'' ''m'') = Some Complete \<and>
   files (snd (process_image (example_request ''yearly'') ''m'' (MultiPolygon [(0, 0, 1, 1), (2, 2, 3, 3)])
          example_image ''2021'' (example_world [] [''o'', ''o/m''] [])))
     (part_path (example_request ''yearly'') ''2021'' ''m'' 0) = None \<and>
   files (snd (process_image (example_request ''yearly'') ''m'' (MultiPolygon [(0, 0, 1, 1), (2, 2, 3, 3)])
          example_image ''2021'' (example_world [] [''o'', ''o/m''] [])))
     (part_path (example_request ''yearly'') ''2021'' ''m'' 1) = None"
proof -
  let ?geoms = "[(0, 0, 1, 1), (2, 2, 3, 3)] :: bounds list"
  let ?w = "example_world [] [''o'', ''o/m''] []"
  have h1: "?geoms \<noteq> []"
    by simp
  have h2: "faults ?w = []"
    by (simp add: example_world_def)
  have h3: "\<forall>idx < length ?geoms. part_path (example_request ''yearly'') ''2021'' ''m'' idx \<notin> dirs ?w"
    by (simp add: example_world_def example_request_def part_path_def region_folder_def
        part_filename_def path_join_def collection_leaf_def)
  have i: "(0::nat) < length ?geoms" "(1::nat) < length ?geoms"
    by simp_all
  from parts_removed_after_merge [OF h1 h2 h3, of example_image] i h2 show ?thesis
    by blast
qed

subsection \<open>No part downloaded\<close>

text \<open>
  Claim C3, as the code has it. When the loop over the polygons of a region ends, or is
  left by an exception, with no part collected, the merge step is skipped: no raster is
  opened, merged or written, and the path of the merged file is as it was before.
\<close>

theorem no_part_no_merge:
  assumes "fst (fst (download_parts rq region_code img time_suffix 0 geoms [] w)) = []"
  shows "files (snd (process_image rq region_code (MultiPolygon geoms) img time_suffix w))
           (artifact_path rq time_suffix region_code) = files w (artifact_path rq time_suffix region_code) \<and>
         filter is_raster (events (snd (process_image rq region_code (MultiPolygon geoms) img time_suffix w)))
           = filter is_raster (events w)"
proof -
  obtain temp_files eo w1 where d: "download_parts rq region_code img time_suffix 0 geoms [] w = ((temp_files, eo), w1)"
    by (metis surj_pair)
  with assms have t: "temp_files = []"
    by simp
  from download_parts_frame [OF d] artifact_not_part [of rq time_suffix region_code]
  have "files w1 (artifact_path rq time_suffix region_code) = files w (artifact_path rq time_suffix region_code)"
    and "filter is_raster (events w1) = filter is_raster (events w)"
    by auto
  with d t show ?thesis
    by (cases eo) simp_all
qed

theorem no_part_no_merge_witness:
  "fst (fst (download_parts (example_request ''yearly'') ''m'' example_image ''2021'' 0
          [(0, 0, 1, 1), (2, 2, 3, 3)] [] (example_world [] [''o'', ''o/m''] [True]))) = [] \<and>
   files (snd (process_image (example_request ''yearly'') ''m'' (MultiPolygon [(0, 0, 1, 1), (2, 2, 3, 3)])
          example_image ''2021'' (example_world [] [''o'', ''o/m''] [True])))
     (artifact_path (example_request ''yearly'') ''2021'' ''m'') = None \<and>
   filter is_raster (events (snd (process_image (example_request ''yearly'') ''m''
          (MultiPolygon [(0, 0, 1, 1), (2, 2, 3, 3)]) example_image ''2021''
          (example_world [] [''o'', ''o/m''] [True])))) = []"
proof -
  have h: "fst (fst (download_parts (example_request ''yearly'') ''m'' example_image ''2021'' 0
          [(0, 0, 1, 1), (2, 2, 3, 3)] [] (example_world [] [''o'', ''o/m''] [True]))) = []"
    by code_simp
  from no_part_no_merge [OF h] h show ?thesis
    by (simp add: example_world_def)
qed

text \<open>
  Claim C3 as it is written fails where it promises that no part file is left. The
  first part's download reference, HTTP request and status check succeed, the file is
  opened for writing, and the stream then breaks. No part is collected, and the file
  that \<open>open\<close> created stays on disk, incomplete; nothing in \<open>download_file\<close> or its callers
  removes it.
\<close>

theorem failed_stream_leaves_part_file:
  "files (example_world [] [''o'', ''o/m''] [False, False, False, False, True])
     (part_path (example_request ''yearly'') ''2021'' ''m'' 0) = None \<and>
   fst (download_parts (example_request ''yearly'') ''m'' example_image ''2021'' 0
          [(0, 0, 1, 1), (2, 2, 3, 3)] []
          (example_world [] [''o'', ''o/m''] [False, False, False, False, True])) =
     ([], Some (NameError ''time'')) \<and>
   files (snd (process_image (example_request ''yearly'') ''m'' example_multipolygon example_image ''2021''
          (example_world [] [''o'', ''o/m''] [False, False, False, False, True])))
     (part_path (example_request ''yearly'') ''2021'' ''m'' 0) = Some Partial"
  by code_simp

subsection \<open>Monthly windows and the yearly mosaic of months\<close>























end
